theory Spec2Isabelle
  imports Complex_Main "HOL-Library.Log_Nat" "HOL-Library.AList"
begin

section \<open>JavaScript completions\<close>

text \<open>
  A JavaScript call either returns or throws. A throw does not undo the writes made
  before it, so both completions carry the state reached.
\<close>

datatype js_error = TypeError | ReferenceError

datatype 'a outcome = Returned 'a | Threw js_error 'a

section \<open>Texture handler (src/src/resources/render.js, second part)\<close>

subsection \<open>Texture objects\<close>

text \<open>
  The \<^verbatim>\<open>pc.PIXELFORMAT_*\<close> constants are declared outside the sources at hand; the three
  the handler names are constructors, every other format is \<open>PIXELFORMAT_OTHER n\<close>.
\<close>

datatype pixelformat =
    PIXELFORMAT_R8_G8_B8
  | PIXELFORMAT_R8_G8_B8_A8
  | PIXELFORMAT_RGBA32F
  | PIXELFORMAT_OTHER nat

text \<open>
  One entry of \<^verbatim>\<open>texture._levels\<close>: a typed array of channel values, a canvas, image or
  video element, or nothing (\<^verbatim>\<open>null\<close>, \<^verbatim>\<open>undefined\<close>). A cube map holds an array of
  faces per level.
\<close>

datatype 'a source = Pixels "'a list" | HtmlElement | Absent

datatype 'a miplevel = Single "'a source" | Faces "'a source list"

datatype updated = Flag bool | FaceFlags "bool list"

record 'a texture =
  t_width :: int
  t_height :: int
  t_format :: pixelformat
  t_volume :: bool
  t_compressed :: bool
  t_cubemap :: bool
  t_levels :: "'a miplevel list"
  t_levelsUpdated :: "updated list"

subsection \<open>Number operations\<close>

text \<open>\<^verbatim>\<open>x >> n\<close>: the left operand as a signed 32-bit integer, the shift count modulo 32.\<close>

definition toInt32 :: "int \<Rightarrow> int" where
  "toInt32 x = (let m = x mod 2 ^ 32 in if 2 ^ 31 \<le> m then m - 2 ^ 32 else m)"

definition shr :: "int \<Rightarrow> int \<Rightarrow> int" where
  "shr x n = toInt32 x div 2 ^ nat (n mod 32)"

text \<open>
  \<^verbatim>\<open>var requiredMipLevels = Math.log2(Math.max(texture._width, texture._height)) + 1\<close>
  is a real number, in general not an integer. \<^verbatim>\<open>Math.log2\<close> is read as the exact binary
  logarithm. The two places that use the value compare it with an integer; on integers
  both comparisons are decided exactly by \<open>below_required\<close> and \<open>equals_required\<close>
  (lemmas \<open>below_required_log2\<close> and \<open>equals_required_log2\<close>). For a non-positive
  maximum \<^verbatim>\<open>Math.log2\<close> is \<^verbatim>\<open>-Infinity\<close> or \<^verbatim>\<open>NaN\<close> and both comparisons are false.
  The code computes in double precision: there the sum is rounded, and for a maximum so
  large that \<open>log2(max) + 1\<close> rounds to an integer (far beyond \<open>2 ^ 31\<close>, the range of
  \<^verbatim>\<open>>>\<close> and of texture dimensions) the comparisons of the code can differ from the exact
  ones.
\<close>

definition requiredMipLevels :: "int \<Rightarrow> int \<Rightarrow> real" where
  "requiredMipLevels w h = log 2 (real_of_int (max w h)) + 1"

definition below_required :: "nat \<Rightarrow> int \<Rightarrow> int \<Rightarrow> bool" where
  \<comment> \<open>\<^verbatim>\<open>level < requiredMipLevels\<close>\<close>
  "below_required level w h = (1 \<le> max w h \<and> 2 ^ level < 2 * max w h)"

definition equals_required :: "nat \<Rightarrow> int \<Rightarrow> int \<Rightarrow> bool" where
  \<comment> \<open>\<^verbatim>\<open>texture._levels.length === requiredMipLevels\<close>\<close>
  "equals_required n w h = (1 \<le> max w h \<and> 2 ^ n = 2 * max w h)"

subsection \<open>Downsampling one level\<close>

text \<open>\<^verbatim>\<open>data[i]\<close> on a typed array: \<^verbatim>\<open>undefined\<close> outside the array.\<close>

definition sample :: "'a list \<Rightarrow> int \<Rightarrow> 'a option" where
  "sample data i = (if 0 \<le> i \<and> i < int (length data) then Some (data ! nat i) else None)"

text \<open>
  \<^verbatim>\<open>downsample(width, height, data)\<close>. The result array is filled in index order
  (\<^verbatim>\<open>y\<close>, then \<^verbatim>\<open>x\<close>, then the channel \<^verbatim>\<open>e\<close>), so it is the list of the stored values in
  loop order. What \<^verbatim>\<open>sum / xsys\<close> becomes when it is stored depends on the array type
  (\<^verbatim>\<open>new data.constructor(...)\<close>); \<open>store\<close> takes the samples of one footprint in
  summation order and gives the stored element.
\<close>

definition downsample :: "('a option list \<Rightarrow> 'a) \<Rightarrow> int \<Rightarrow> int \<Rightarrow> 'a list \<Rightarrow> 'a list" where
  "downsample store width height data =
     (let sampledWidth = max 1 (shr width 1);
          sampledHeight = max 1 (shr height 1);
          xs = width div sampledWidth;
          ys = height div sampledHeight
      in concat (map (\<lambda>y. concat (map (\<lambda>x. map (\<lambda>e.
           store (concat (map (\<lambda>sy. map (\<lambda>sx.
             sample data ((x * xs + sx + (y * ys + sy) * width) * 4 + e))
             [0..xs - 1]) [0..ys - 1])))
           [0..3]) [0..sampledWidth - 1])) [0..sampledHeight - 1]))"

text \<open>
  The store of a \<^verbatim>\<open>Uint8Array\<close>: the quotient truncated and reduced modulo 256; a sum
  over an \<^verbatim>\<open>undefined\<close> sample is \<^verbatim>\<open>NaN\<close> and is stored as 0.
\<close>

definition store_u8 :: "nat option list \<Rightarrow> nat" where
  "store_u8 vs =
     (if None \<in> set vs then 0 else (sum_list (map the vs) div length vs) mod 256)"

text \<open>
  \<^verbatim>\<open>new data.constructor(...)\<close> throws a TypeError when \<^verbatim>\<open>data\<close> is \<^verbatim>\<open>undefined\<close> or
  \<^verbatim>\<open>null\<close>, and for a DOM element (illegal constructor): \<open>None\<close>.
\<close>

fun downsample_source ::
  "('a option list \<Rightarrow> 'a) \<Rightarrow> int \<Rightarrow> int \<Rightarrow> 'a source \<Rightarrow> 'a source option" where
  "downsample_source store width height (Pixels data) =
     Some (Pixels (downsample store width height data))"
| "downsample_source store width height HtmlElement = None"
| "downsample_source store width height Absent = None"

subsection \<open>Completing a partial mip chain\<close>

definition isHtmlElement :: "'a source \<Rightarrow> bool" where
  "isHtmlElement object = (object = HtmlElement)"

text \<open>\<^verbatim>\<open>texture._levels[i]\<close> and \<^verbatim>\<open>faces[i]\<close>: \<open>None\<close> and \<open>Absent\<close> are \<^verbatim>\<open>undefined\<close>.\<close>

definition level_at :: "'a miplevel list \<Rightarrow> int \<Rightarrow> 'a miplevel option" where
  "level_at levels i =
     (if 0 \<le> i \<and> i < int (length levels) then Some (levels ! nat i) else None)"

definition face_at :: "'a source list \<Rightarrow> nat \<Rightarrow> 'a source" where
  "face_at faces i = (if i < length faces then faces ! i else Absent)"

text \<open>
  The argument of \<^verbatim>\<open>isHtmlElement\<close> in the guard:
  \<^verbatim>\<open>texture._cubemap ? texture._levels[0][0] : texture._levels[0]\<close>. Indexing
  \<^verbatim>\<open>undefined\<close> throws (\<open>None\<close>). A texture is well formed when its levels are face
  arrays exactly when it is a cube map; on the other shapes the model throws too.
\<close>

definition level0 :: "'a texture \<Rightarrow> 'a source option" where
  "level0 t =
     (if t_cubemap t then
        (case level_at (t_levels t) 0 of
           Some (Faces faces) \<Rightarrow> Some (face_at faces 0)
         | _ \<Rightarrow> None)
      else
        (case level_at (t_levels t) 0 of
           None \<Rightarrow> Some Absent
         | Some (Single s) \<Rightarrow> Some s
         | Some (Faces faces) \<Rightarrow> None))"

text \<open>
  One pass of the loop body: the level pushed for \<^verbatim>\<open>level\<close>, or \<open>None\<close> when a
  \<^verbatim>\<open>downsample\<close> call throws. \<^verbatim>\<open>width\<close> and \<^verbatim>\<open>height\<close> are the dimensions the code
  ascribes to the level before.
\<close>

definition next_level ::
  "('a option list \<Rightarrow> 'a) \<Rightarrow> nat \<Rightarrow> 'a texture \<Rightarrow> 'a miplevel option" where
  "next_level store level t =
     (let width = max 1 (shr (t_width t) (int level - 1));
          height = max 1 (shr (t_height t) (int level - 1))
      in if t_cubemap t then
           (case level_at (t_levels t) (int level - 1) of
              Some (Faces faces) \<Rightarrow>
                map_option Faces
                  (those (map (\<lambda>face. downsample_source store width height (face_at faces face))
                     [0..<6]))
            | _ \<Rightarrow> None)
         else
           (case level_at (t_levels t) (int level - 1) of
              Some (Single s) \<Rightarrow> map_option Single (downsample_source store width height s)
            | _ \<Rightarrow> None))"

text \<open>
  \<^verbatim>\<open>for (var level = texture._levels.length; level < requiredMipLevels; ++level)\<close>
\<close>

function step_levels ::
  "('a option list \<Rightarrow> 'a) \<Rightarrow> nat \<Rightarrow> 'a texture \<Rightarrow> 'a texture outcome" where
  "step_levels store level t =
     (if below_required level (t_width t) (t_height t) then
        (case next_level store level t of
           None \<Rightarrow> Threw TypeError t
         | Some mips \<Rightarrow> step_levels store (Suc level) (t\<lparr>t_levels := t_levels t @ [mips]\<rparr>))
      else Returned t)"
  by pat_completeness auto
termination
  by (relation "measure (\<lambda>(store, level, t). nat (2 * max (t_width t) (t_height t)) - 2 ^ level)")
     (auto simp: below_required_def nat_less_iff intro!: diff_less_mono2)

declare step_levels.simps [simp del]

definition completePartialMipmapChain ::
  "('a option list \<Rightarrow> 'a) \<Rightarrow> 'a texture \<Rightarrow> 'a texture outcome" where
  "completePartialMipmapChain store t =
     (if t_format t = PIXELFORMAT_R8_G8_B8_A8 \<or> t_format t = PIXELFORMAT_RGBA32F then
        if t_volume t then Returned t
        else if t_compressed t then Returned t
        else if length (t_levels t) = 1 then Returned t
        else if equals_required (length (t_levels t)) (t_width t) (t_height t) then Returned t
        else
          (case level0 t of
             None \<Rightarrow> Threw TypeError t
           | Some object \<Rightarrow>
               if isHtmlElement object then Returned t
               else
                 (case step_levels store (length (t_levels t)) t of
                    Threw e t' \<Rightarrow> Threw e t'
                  | Returned t' \<Rightarrow>
                      Returned (t'\<lparr>t_levelsUpdated :=
                        (if t_cubemap t' then [FaceFlags [True, True, True, True, True, True]]
                         else [Flag True])\<rparr>)))
      else Returned t)"

subsection \<open>Selecting a parser and opening a texture\<close>

text \<open>
  \<^verbatim>\<open>url.indexOf('?') >= 0 ? url.split('?')[0] : url\<close>: the part before the first
  question mark.
\<close>

definition getUrlWithoutParams :: "string \<Rightarrow> string" where
  "getUrlWithoutParams url =
     (if CHR ''?'' \<in> set url then takeWhile (\<lambda>c. c \<noteq> CHR ''?'') url else url)"

text \<open>\<^verbatim>\<open>toLowerCase\<close> on the ASCII letters; \<^verbatim>\<open>replace('.', '')\<close> drops the first dot.\<close>

definition lower_char :: "char \<Rightarrow> char" where
  "lower_char c =
     (case map_of (zip ''ABCDEFGHIJKLMNOPQRSTUVWXYZ'' ''abcdefghijklmnopqrstuvwxyz'') c of
        Some l \<Rightarrow> l
      | None \<Rightarrow> c)"

definition toLowerCase :: "string \<Rightarrow> string" where
  "toLowerCase s = map lower_char s"

text \<open>
  \<^verbatim>\<open>this.parsers[ext] || this.imgParser\<close>, with
  \<^verbatim>\<open>parsers = { dds: ..., ktx: ..., basis: ... }\<close>. The lookup also finds what the object
  inherits; of the inherited names only \<^verbatim>\<open>constructor\<close> and \<^verbatim>\<open>__proto__\<close> are lower case,
  and what they give is truthy but has no \<^verbatim>\<open>open\<close> method: \<open>NotAParser\<close>.
  \<^verbatim>\<open>pc.path.getExtension\<close> is not part of the sources at hand and is a parameter.
\<close>

datatype parser = DdsParser | KtxParser | BasisParser | ImgParser | NotAParser

definition getParser :: "(string \<Rightarrow> string) \<Rightarrow> string \<Rightarrow> parser" where
  "getParser getExtension url =
     (let ext = remove1 (CHR ''.'') (toLowerCase (getExtension (getUrlWithoutParams url)))
      in if ext = ''dds'' then DdsParser
         else if ext = ''ktx'' then KtxParser
         else if ext = ''basis'' then BasisParser
         else if ext = ''constructor'' \<or> ext = ''__proto__'' then NotAParser
         else ImgParser)"

text \<open>
  The handler's collaborators: the extension function and the \<^verbatim>\<open>open\<close> method of each
  parser, which gives a texture or \<^verbatim>\<open>null\<close> (\<open>None\<close>) for data it cannot decode.
\<close>

record ('d, 'a) textureHandler =
  getExtension :: "string \<Rightarrow> string"
  parserOpen :: "parser \<Rightarrow> string \<Rightarrow> 'd \<Rightarrow> 'a texture option"

text \<open>
  Modelled from the spec: the constructor \<^verbatim>\<open>pc.Texture\<close> is not part of the sources at
  hand. The spec calls the fallback a minimal valid placeholder texture, a fixed small
  square; the options object of the call fixes width, height and format, and the rest
  is a plain 2D texture with one empty level.
\<close>

definition new_Texture :: "int \<Rightarrow> int \<Rightarrow> pixelformat \<Rightarrow> 'a texture" where
  "new_Texture width height format =
     \<lparr>t_width = width, t_height = height, t_format = format, t_volume = False,
      t_compressed = False, t_cubemap = False, t_levels = [Single Absent],
      t_levelsUpdated = [Flag True]\<rparr>"

text \<open>
  \<^verbatim>\<open>TextureHandler.open(url, data, asset)\<close>. A url is a string or missing; the falsy
  ones are the missing url and the empty string. The result is paired with the list of
  parsers whose \<^verbatim>\<open>open\<close> was called.
\<close>

datatype 'a opened = Undefined | Texture "'a texture"

definition falsy_url :: "string option \<Rightarrow> bool" where
  "falsy_url url = (url = None \<or> url = Some [])"

definition open_texture ::
  "('a option list \<Rightarrow> 'a) \<Rightarrow> ('d, 'a) textureHandler \<Rightarrow> string option \<Rightarrow> 'd
     \<Rightarrow> 'a opened outcome \<times> parser list" where
  "open_texture store handler url data =
     (if falsy_url url then (Returned Undefined, [])
      else
        (let parser = getParser (getExtension handler) (the url) in
         if parser = NotAParser then (Threw TypeError Undefined, [])
         else
           (case parserOpen handler parser (the url) data of
              None \<Rightarrow>
                (Returned (Texture (new_Texture 4 4 PIXELFORMAT_R8_G8_B8)), [parser])
            | Some texture \<Rightarrow>
                (case completePartialMipmapChain store texture of
                   Returned texture' \<Rightarrow> (Returned (Texture texture'), [parser])
                 | Threw e texture' \<Rightarrow> (Threw e (Texture texture'), [parser])))))"

subsection \<open>What the spec says of the completion pass\<close>

text \<open>
  The full chain length of the spec, \<open>floor(log2(max(width, height))) + 1\<close>, and the
  eligibility predicate in the spec's words: an 8-bit or 32-bit-float RGBA format, not
  a volume, not compressed, more than one level but fewer than the full chain, level 0
  not a media element.
\<close>

definition fullChainLength :: "'a texture \<Rightarrow> nat" where
  "fullChainLength t = floorlog 2 (nat (max (t_width t) (t_height t)))"

definition eligible :: "'a texture \<Rightarrow> bool" where
  "eligible t =
     ((t_format t = PIXELFORMAT_R8_G8_B8_A8 \<or> t_format t = PIXELFORMAT_RGBA32F)
      \<and> \<not> t_volume t \<and> \<not> t_compressed t
      \<and> 1 < length (t_levels t) \<and> length (t_levels t) < fullChainLength t
      \<and> level0 t \<noteq> None \<and> level0 t \<noteq> Some HtmlElement)"

text \<open>
  A level on which \<^verbatim>\<open>downsample\<close> does not throw: a typed array, or six of them for a
  cube map.
\<close>

definition six_arrays :: "'a source list \<Rightarrow> bool" where
  "six_arrays faces = list_all (\<lambda>face. face_at faces face \<noteq> HtmlElement \<and> face_at faces face \<noteq> Absent) [0..<6]"

fun raw_level :: "bool \<Rightarrow> 'a miplevel \<Rightarrow> bool" where
  "raw_level cubemap (Single (Pixels data)) = (\<not> cubemap)"
| "raw_level cubemap (Single HtmlElement) = False"
| "raw_level cubemap (Single Absent) = False"
| "raw_level cubemap (Faces faces) = (cubemap \<and> six_arrays faces)"

text \<open>
  Level \<open>level\<close> is marked dirty in \<^verbatim>\<open>texture._levelsUpdated\<close>: the entry of that index is
  \<^verbatim>\<open>true\<close>, for a cube map \<^verbatim>\<open>true\<close> for each of the six faces.
\<close>

definition marked_dirty :: "updated list \<Rightarrow> nat \<Rightarrow> bool" where
  "marked_dirty levelsUpdated level =
     (level < length levelsUpdated \<and>
      (case levelsUpdated ! level of
         Flag dirty \<Rightarrow> dirty
       | FaceFlags dirty \<Rightarrow> dirty = [True, True, True, True, True, True]))"

subsection \<open>Two textures with a partial chain\<close>

text \<open>
  A 4 by 1 and a 5 by 1 RGBA8 texture, each with its first two levels (4 and 2 pixels,
  5 and 2 pixels), as a parser hands them over.
\<close>

definition pow2_texture :: "nat texture" where
  "pow2_texture =
     \<lparr>t_width = 4, t_height = 1, t_format = PIXELFORMAT_R8_G8_B8_A8, t_volume = False,
      t_compressed = False, t_cubemap = False,
      t_levels =
        [Single (Pixels [10, 20, 30, 255, 30, 40, 50, 255, 50, 60, 70, 255, 70, 80, 90, 255]),
         Single (Pixels [20, 30, 40, 255, 60, 70, 80, 255])],
      t_levelsUpdated = [Flag True]\<rparr>"

definition npot_texture :: "nat texture" where
  "npot_texture =
     \<lparr>t_width = 5, t_height = 1, t_format = PIXELFORMAT_R8_G8_B8_A8, t_volume = False,
      t_compressed = False, t_cubemap = False,
      t_levels =
        [Single (Pixels [10, 20, 30, 255, 30, 40, 50, 255, 50, 60, 70, 255, 70, 80, 90, 255,
                         90, 100, 110, 255]),
         Single (Pixels [20, 30, 40, 255, 60, 70, 80, 255])],
      t_levelsUpdated = [Flag True]\<rparr>"

text \<open>The lengths of the arrays of a level: one array, or one per face.\<close>

fun source_size :: "'a source \<Rightarrow> nat" where
  "source_size (Pixels data) = length data"
| "source_size HtmlElement = 0"
| "source_size Absent = 0"

fun level_sizes :: "'a miplevel \<Rightarrow> nat list" where
  "level_sizes (Single s) = [source_size s]"
| "level_sizes (Faces faces) = map source_size faces"

text \<open>
  The size the spec gives a synthesized level: four channels for each pixel of
  \<open>max 1 (previous >> 1)\<close> per axis, where the previous level of level \<open>level\<close> has the
  dimensions \<open>max 1 (dim >> (level - 1))\<close>.
\<close>

definition halved :: "int \<Rightarrow> int" where
  "halved previous = max 1 (shr previous 1)"

definition synthesized_size :: "'a texture \<Rightarrow> nat \<Rightarrow> nat" where
  "synthesized_size t level =
     nat (4 * halved (max 1 (shr (t_width t) (int level - 1)))
            * halved (max 1 (shr (t_height t) (int level - 1))))"

section \<open>Render handler (src/src/resources/render.js, first part)\<close>

subsection \<open>Render assets and container assets\<close>

text \<open>
  A render asset names a container asset by id (\<^verbatim>\<open>asset.data.containerAsset\<close>) and one of
  its renders by index (\<^verbatim>\<open>asset.data.renderIndex\<close>); its resource is a \<^verbatim>\<open>pc.Render\<close>, whose
  \<^verbatim>\<open>meshes\<close> field the handler sets, or is falsy (\<open>None\<close>). The id is falsy when it is
  missing or 0.
\<close>

record 'm render =
  meshes :: "'m option"

record 'm renderAsset =
  containerAsset :: "nat option"
  renderIndex :: int
  resource :: "'m render option"

text \<open>
  A container asset: \<^verbatim>\<open>id\<close> (here \<open>container_id\<close>), \<^verbatim>\<open>loaded\<close> and \<^verbatim>\<open>resources\<close>. An entry
  \<^verbatim>\<open>containerResource.renders[i]\<close> is an object; the list holds the \<^verbatim>\<open>resource\<close> of each
  entry, a mesh group (\<open>Some meshGroup\<close>) or \<^verbatim>\<open>null\<close> (\<open>None\<close>).
\<close>

record 'm containerResource =
  renders :: "'m option list"

record 'm container =
  container_id :: nat
  loaded :: bool
  resources :: "'m containerResource list"

definition falsy_id :: "nat option \<Rightarrow> bool" where
  "falsy_id i = (i = None \<or> i = Some 0)"

subsection \<open>The asset registry\<close>

text \<open>
  Modelled from the spec: the asset registry is not part of the sources at hand. The
  spec lists what the resolver consumes: \<open>get(id)\<close>, \<open>load(asset)\<close>,
  \<open>once(eventKey, handler, context)\<close>, \<open>off(eventKey, handler, context)\<close>, and the events
  \<open>add:<id>\<close> and \<open>load:<id>\<close>; \<open>load\<close> registers a request and returns, completion is
  delivered later by calling the registered handlers, and a registration made with
  \<open>once\<close> fires at most once. The registry holds the registered container assets, the
  subscriptions whose context is the render asset, and the ids whose load was
  requested.
\<close>

datatype eventKey = AddEvent nat | LoadEvent nat

datatype handler = OnContainerAssetAdded | OnContainerAssetLoaded

record 'm registry =
  assets :: "(nat \<times> 'm container) list"
  subscriptions :: "(eventKey \<times> handler) list"
  loads :: "nat list"

definition get :: "'m registry \<Rightarrow> nat \<Rightarrow> 'm container option" where
  "get r i = map_of (assets r) i"

definition once :: "eventKey \<Rightarrow> handler \<Rightarrow> 'm registry \<Rightarrow> 'm registry" where
  "once key h r = r\<lparr>subscriptions := subscriptions r @ [(key, h)]\<rparr>"

definition off :: "eventKey \<Rightarrow> handler \<Rightarrow> 'm registry \<Rightarrow> 'm registry" where
  "off key h r = r\<lparr>subscriptions := removeAll (key, h) (subscriptions r)\<rparr>"

definition load :: "'m container \<Rightarrow> 'm registry \<Rightarrow> 'm registry" where
  "load c r = r\<lparr>loads := loads r @ [container_id c]\<rparr>"

subsection \<open>The handler\<close>

text \<open>
  \<^verbatim>\<open>renders[renderIndex]\<close>: \<^verbatim>\<open>undefined\<close> outside the array (\<open>None\<close>), else the entry,
  given by its \<^verbatim>\<open>resource\<close>.
\<close>

definition render_at :: "'m option list \<Rightarrow> int \<Rightarrow> 'm option option" where
  "render_at rs i = (if 0 \<le> i \<and> i < int (length rs) then Some (rs ! nat i) else None)"

text \<open>
  \<^verbatim>\<open>onContainerAssetLoaded(containerAsset)\<close>, called with the render asset as \<^verbatim>\<open>this\<close>.
  \<^verbatim>\<open>containerAsset.resources[0]\<close> of an empty list is \<^verbatim>\<open>undefined\<close> and reading its
  \<^verbatim>\<open>renders\<close> throws. When the entry exists, \<^verbatim>\<open>meshes\<close> is assigned its \<^verbatim>\<open>resource\<close>,
  whatever that is.
\<close>

definition onContainerAssetLoaded ::
  "'m renderAsset \<Rightarrow> 'm container \<Rightarrow> 'm renderAsset outcome" where
  "onContainerAssetLoaded renderAsset container =
     (case resource renderAsset of
        None \<Rightarrow> Returned renderAsset
      | Some res \<Rightarrow>
          (case resources container of
             [] \<Rightarrow> Threw TypeError renderAsset
           | containerResource # rest \<Rightarrow>
               (case render_at (renders containerResource) (renderIndex renderAsset) of
                  None \<Rightarrow> Returned renderAsset
                | Some render_resource \<Rightarrow>
                    Returned (renderAsset\<lparr>resource := Some (res\<lparr>meshes := render_resource\<rparr>)\<rparr>))))"

text \<open>
  A handler runs on the render asset and the registry. \<open>lift_asset\<close> turns the
  completion of \<open>onContainerAssetLoaded\<close> into one of the pair.
\<close>

fun lift_asset ::
  "'m registry \<Rightarrow> 'm renderAsset outcome \<Rightarrow> ('m renderAsset \<times> 'm registry) outcome" where
  "lift_asset r (Returned a) = Returned (a, r)"
| "lift_asset r (Threw e a) = Threw e (a, r)"

text \<open>\<^verbatim>\<open>onContainerAssetAdded(containerAsset)\<close>, called with the render asset as \<^verbatim>\<open>this\<close>.\<close>

definition onContainerAssetAdded ::
  "'m renderAsset \<Rightarrow> 'm registry \<Rightarrow> 'm container
     \<Rightarrow> ('m renderAsset \<times> 'm registry) outcome" where
  "onContainerAssetAdded renderAsset r container =
     (if \<not> loaded container then
        Returned (renderAsset,
          load container
            (once (LoadEvent (container_id container)) OnContainerAssetLoaded
              (off (LoadEvent (container_id container)) OnContainerAssetLoaded r)))
      else lift_asset r (onContainerAssetLoaded renderAsset container))"

text \<open>
  \<^verbatim>\<open>RenderHandler.patch(asset, registry)\<close>. In the branch of a container that
  \<^verbatim>\<open>registry.get\<close> does not find, the argument \<^verbatim>\<open>'add:' + containerAsset.id\<close> reads a
  property of the falsy \<^verbatim>\<open>containerAsset\<close>: a TypeError, before \<^verbatim>\<open>registry.once\<close> is
  entered.
\<close>

definition patch ::
  "'m renderAsset \<Rightarrow> 'm registry \<Rightarrow> ('m renderAsset \<times> 'm registry) outcome" where
  "patch asset r =
     (if falsy_id (containerAsset asset) then Returned (asset, r)
      else
        (case get r (the (containerAsset asset)) of
           None \<Rightarrow> Threw TypeError (asset, r)
         | Some container \<Rightarrow>
             if \<not> loaded container then
               Returned (asset,
                 load container (once (LoadEvent (container_id container)) OnContainerAssetLoaded r))
             else lift_asset r (onContainerAssetLoaded asset container)))"

subsection \<open>Delivery of an event\<close>

text \<open>
  Modelled from the spec: the registry fires an event by calling, in order of
  registration, the handlers registered for its key with the asset the event is about;
  registrations made with \<open>once\<close> are removed when the event fires. The first handler
  that throws ends the delivery.
\<close>

definition run_handler ::
  "handler \<Rightarrow> 'm container \<Rightarrow> 'm renderAsset \<times> 'm registry
     \<Rightarrow> ('m renderAsset \<times> 'm registry) outcome" where
  "run_handler h container s =
     (case h of
        OnContainerAssetAdded \<Rightarrow> onContainerAssetAdded (fst s) (snd s) container
      | OnContainerAssetLoaded \<Rightarrow> lift_asset (snd s) (onContainerAssetLoaded (fst s) container))"

fun run_handlers ::
  "handler list \<Rightarrow> 'm container \<Rightarrow> 'm renderAsset \<times> 'm registry
     \<Rightarrow> ('m renderAsset \<times> 'm registry) outcome" where
  "run_handlers [] container s = Returned s"
| "run_handlers (h # hs) container s =
     (case run_handler h container s of
        Returned s' \<Rightarrow> run_handlers hs container s'
      | Threw e s' \<Rightarrow> Threw e s')"

definition fire ::
  "eventKey \<Rightarrow> 'm container \<Rightarrow> 'm renderAsset \<times> 'm registry
     \<Rightarrow> ('m renderAsset \<times> 'm registry) outcome" where
  "fire key container s =
     run_handlers (map snd (filter (\<lambda>sub. fst sub = key) (subscriptions (snd s)))) container
       (fst s, (snd s)\<lparr>subscriptions := filter (\<lambda>sub. fst sub \<noteq> key) (subscriptions (snd s))\<rparr>)"

text \<open>
  The container asset \<open>container\<close> finishes loading with the resources \<open>rs\<close>: the
  registry holds the loaded asset and fires \<open>load:<id>\<close> with it.
\<close>

definition loaded_with :: "'m containerResource list \<Rightarrow> 'm container \<Rightarrow> 'm container" where
  "loaded_with rs container = container\<lparr>loaded := True, resources := rs\<rparr>"

definition finish_load ::
  "'m containerResource list \<Rightarrow> 'm container \<Rightarrow> 'm renderAsset \<times> 'm registry
     \<Rightarrow> ('m renderAsset \<times> 'm registry) outcome" where
  "finish_load rs container s =
     fire (LoadEvent (container_id container)) (loaded_with rs container)
       (fst s, (snd s)\<lparr>assets := AList.update (container_id container) (loaded_with rs container)
                                   (assets (snd s))\<rparr>)"

subsection \<open>A render asset and two registries\<close>

text \<open>
  A render asset that names container 7 and its render 0, once with an empty
  \<^verbatim>\<open>pc.Render\<close> as resource and once without a resource; a registry that does not hold
  asset 7, and one that holds it unloaded.
\<close>

definition render_asset :: "nat renderAsset" where
  "render_asset =
     \<lparr>containerAsset = Some 7, renderIndex = 0, resource = Some \<lparr>meshes = None\<rparr>\<rparr>"

definition empty_asset :: "nat renderAsset" where
  "empty_asset = \<lparr>containerAsset = Some 7, renderIndex = 0, resource = None\<rparr>"

definition no_assets :: "nat registry" where
  "no_assets = \<lparr>assets = [], subscriptions = [], loads = []\<rparr>"

definition unloaded_7 :: "nat container" where
  "unloaded_7 = \<lparr>container_id = 7, loaded = False, resources = []\<rparr>"

definition holds_unloaded_7 :: "nat registry" where
  "holds_unloaded_7 = \<lparr>assets = [(7, unloaded_7)], subscriptions = [], loads = []\<rparr>"

text \<open>The resources container 7 gets when it is loaded: one render, mesh group 42.\<close>

definition resources_7 :: "nat containerResource list" where
  "resources_7 = [\<lparr>renders = [Some 42]\<rparr>]"

definition holds_loaded_7 :: "nat registry" where
  "holds_loaded_7 =
     \<lparr>assets = [(7, loaded_with resources_7 unloaded_7)], subscriptions = [], loads = []\<rparr>"

section \<open>Render component (src/unnamed/part_000)\<close>

subsection \<open>Mesh instances\<close>

text \<open>
  A component, the layers and the batcher hold references to the same
  \<^verbatim>\<open>pc.MeshInstance\<close> objects, so the objects live in a heap and are named by their
  index. The class itself is not part of the sources at hand; the fields are the ones
  the component reads and writes.
\<close>

type_synonym ref = nat

record meshInstance =
  node :: nat
  mesh :: nat
  material :: nat
  castShadow :: bool
  receiveShadow :: bool
  isStatic :: bool
  lightmapped :: bool
  visible :: bool

datatype flag = CastShadow | ReceiveShadow | IsStatic | Lightmapped | Visible

fun set_flag :: "flag \<Rightarrow> bool \<Rightarrow> meshInstance \<Rightarrow> meshInstance" where
  "set_flag CastShadow b m = m\<lparr>castShadow := b\<rparr>"
| "set_flag ReceiveShadow b m = m\<lparr>receiveShadow := b\<rparr>"
| "set_flag IsStatic b m = m\<lparr>isStatic := b\<rparr>"
| "set_flag Lightmapped b m = m\<lparr>lightmapped := b\<rparr>"
| "set_flag Visible b m = m\<lparr>visible := b\<rparr>"

subsection \<open>Layers and the batcher\<close>

text \<open>
  Modelled from the spec: \<^verbatim>\<open>pc.Layer\<close> is not part of the sources at hand. The spec
  names the four methods the component calls, \<open>addMeshInstances(list)\<close>,
  \<open>removeMeshInstances(list)\<close>, \<open>addShadowCasters(list)\<close> and
  \<open>removeShadowCasters(list)\<close>, calls a layer an ordered collection of geometry
  instances, speaks of its mesh-instance membership and of its shadow-caster set, and
  requires that registering again does not duplicate. So a layer holds two lists; adding
  appends the instances that are not yet present, removing takes every given instance
  out, and each method touches its own list only.
\<close>

record layer =
  meshInstances :: "ref list"
  shadowCasters :: "ref list"

datatype layerMethod =
  AddMeshInstances | RemoveMeshInstances | AddShadowCasters | RemoveShadowCasters

definition add_absent :: "ref list \<Rightarrow> ref list \<Rightarrow> ref list" where
  "add_absent present given =
     foldl (\<lambda>acc m. if m \<in> set acc then acc else acc @ [m]) present given"

definition remove_given :: "ref list \<Rightarrow> ref list \<Rightarrow> ref list" where
  "remove_given present given = filter (\<lambda>m. m \<notin> set given) present"

fun call_layer :: "layerMethod \<Rightarrow> ref list \<Rightarrow> layer \<Rightarrow> layer" where
  "call_layer AddMeshInstances given l =
     l\<lparr>meshInstances := add_absent (meshInstances l) given\<rparr>"
| "call_layer RemoveMeshInstances given l =
     l\<lparr>meshInstances := remove_given (meshInstances l) given\<rparr>"
| "call_layer AddShadowCasters given l =
     l\<lparr>shadowCasters := add_absent (shadowCasters l) given\<rparr>"
| "call_layer RemoveShadowCasters given l =
     l\<lparr>shadowCasters := remove_given (shadowCasters l) given\<rparr>"

text \<open>
  Modelled from the spec: the batcher is not part of the sources at hand. The spec
  gives \<open>insert(groupKind, groupId, node)\<close> and \<open>remove(groupKind, groupId, node)\<close> of a
  batch-group registry; the component always passes the kind \<^verbatim>\<open>BatchGroup.RENDER\<close>. The
  registry is the list of the pairs of a group id and a node that are inserted. What
  membership does to the layers follows the definition of the scene, in \<open>on_batcher\<close>.
\<close>

datatype batcherMethod = Insert | Remove

fun call_batcher :: "batcherMethod \<Rightarrow> int \<Rightarrow> nat \<Rightarrow> (int \<times> nat) list \<Rightarrow> (int \<times> nat) list" where
  "call_batcher Insert groupId n b = (if (groupId, n) \<in> set b then b else b @ [(groupId, n)])"
| "call_batcher Remove groupId n b = removeAll (groupId, n) b"

subsection \<open>The component and its scene\<close>

text \<open>
  The fields of \<^verbatim>\<open>RenderComponent\<close> (\<open>c_type\<close> is \<^verbatim>\<open>_type\<close>, and so on), with
  \<^verbatim>\<open>this.enabled\<close>, the entity and \<^verbatim>\<open>this.entity.enabled\<close>. \<^verbatim>\<open>_meshInstances\<close> is a list of
  references or \<^verbatim>\<open>null\<close>.
\<close>

record component =
  c_type :: string
  c_castShadows :: bool
  c_receiveShadows :: bool
  c_castShadowsLightmap :: bool
  c_lightmapped :: bool
  c_lightmapSizeMultiplier :: int
  c_isStatic :: bool
  c_batchGroupId :: int
  c_meshInstances :: "ref list option"
  c_layers :: "nat list"
  c_material :: nat
  c_area :: "nat option"
  enabled :: bool
  entity :: nat
  entity_enabled :: bool

text \<open>
  What a property setter can change: the heap of mesh instances, the layers of
  \<^verbatim>\<open>system.app.scene.layers\<close> by id (\<^verbatim>\<open>getLayerById\<close> is the lookup), the batcher of
  \<^verbatim>\<open>system.app.batcher\<close>, and the component; \<^verbatim>\<open>system._inTools\<close> is read only. \<open>effects\<close>
  is the history of the calls made on layers and batcher and of the flag writes on mesh
  instances, in the order they happen; the code has no such field, it serves to state
  the order of effects.
\<close>

datatype effect =
    LayerCall nat layerMethod "ref list"
  | BatcherCall batcherMethod int nat
  | FlagWrite ref flag bool

record scene =
  heap :: "meshInstance list"
  layers :: "(nat \<times> layer) list"
  batcher :: "(int \<times> nat) list"
  inTools :: bool
  self :: component
  effects :: "effect list"

definition LAYERID_WORLD :: nat where
  "LAYERID_WORLD = 0"

definition getLayerById :: "scene \<Rightarrow> nat \<Rightarrow> layer option" where
  "getLayerById st i = map_of (layers st) i"

text \<open>
  \<^verbatim>\<open>layer = layers.getLayerById(id); if (layer) layer.method(list)\<close>
\<close>

definition on_layer :: "layerMethod \<Rightarrow> ref list \<Rightarrow> scene \<Rightarrow> nat \<Rightarrow> scene" where
  "on_layer meth given st i =
     (case getLayerById st i of
        None \<Rightarrow> st
      | Some l \<Rightarrow>
          st\<lparr>layers := AList.update i (call_layer meth given l) (layers st),
             effects := effects st @ [LayerCall i meth given]\<rparr>)"

text \<open>
  Modelled from the spec: a call of the batcher by the component. The spec says that
  membership in a batch group excludes direct per-layer draws for the same geometry,
  that the instances of a component with a batch group assigned are excluded from
  direct layer registration in favour of batch membership, and that the setter of
  \<^verbatim>\<open>batchGroupId\<close> re-registers to compensate for the batcher having suppressed direct
  layer draws; the comment in the setter says the same (\<^verbatim>\<open>in case it was removed by
  batching\<close>). So \<open>insert\<close> registers the node and takes the geometry of the node's
  component out of the mesh-instance list of every layer, and \<open>remove\<close> takes the node
  out of the registry and registers nothing. The scene holds the one component; another
  node has no geometry in it. \<open>effects\<close> gets the call the component makes; the layers
  change by the batcher's own work, not by a call of the component.
\<close>

definition geometry_of :: "scene \<Rightarrow> nat \<Rightarrow> ref list" where
  "geometry_of st n =
     (if n = entity (self st) then
        (case c_meshInstances (self st) of None \<Rightarrow> [] | Some mi \<Rightarrow> mi)
      else [])"

definition suppress :: "ref list \<Rightarrow> (nat \<times> layer) list \<Rightarrow> (nat \<times> layer) list" where
  "suppress given ls = map (\<lambda>(i, l). (i, call_layer RemoveMeshInstances given l)) ls"

definition on_batcher :: "batcherMethod \<Rightarrow> int \<Rightarrow> nat \<Rightarrow> scene \<Rightarrow> scene" where
  "on_batcher meth groupId n st =
     st\<lparr>batcher := call_batcher meth groupId n (batcher st),
        layers := (case meth of
                     Insert \<Rightarrow> suppress (geometry_of st n) (layers st)
                   | Remove \<Rightarrow> layers st),
        effects := effects st @ [BatcherCall meth groupId n]\<rparr>"

definition write_flag :: "flag \<Rightarrow> bool \<Rightarrow> scene \<Rightarrow> ref \<Rightarrow> scene" where
  "write_flag f b st m =
     st\<lparr>heap := (heap st)[m := set_flag f b (heap st ! m)],
        effects := effects st @ [FlagWrite m f b]\<rparr>"

subsection \<open>Methods\<close>

text \<open>
  \<^verbatim>\<open>addToLayers\<close> and \<^verbatim>\<open>removeFromLayers\<close>: a loop over \<^verbatim>\<open>this._layers\<close>. A layer method
  handed \<^verbatim>\<open>null\<close> for the list cannot read its length, a TypeError; the loop reaches the
  call when some id of the layer set resolves.
\<close>

definition each_layer :: "layerMethod \<Rightarrow> scene \<Rightarrow> scene outcome" where
  "each_layer meth st =
     (case c_meshInstances (self st) of
        Some given \<Rightarrow> Returned (foldl (on_layer meth given) st (c_layers (self st)))
      | None \<Rightarrow>
          if list_ex (\<lambda>i. getLayerById st i \<noteq> None) (c_layers (self st))
          then Threw TypeError st else Returned st)"

definition addToLayers :: "scene \<Rightarrow> scene outcome" where
  "addToLayers st = each_layer AddMeshInstances st"

definition removeFromLayers :: "scene \<Rightarrow> scene outcome" where
  "removeFromLayers st = each_layer RemoveMeshInstances st"

text \<open>
  \<^verbatim>\<open>generateWireframe\<close>. The second loop reads \<^verbatim>\<open>RENDERSTYLE_WIREFRAME\<close>, which the module
  neither imports nor declares: a ReferenceError as soon as there is a mesh, that is, a
  mesh instance. Without a list the first loop cannot read its length.
\<close>

definition generateWireframe :: "scene \<Rightarrow> scene outcome" where
  "generateWireframe st =
     (case c_meshInstances (self st) of
        None \<Rightarrow> Threw TypeError st
      | Some [] \<Rightarrow> Returned st
      | Some (m # ms) \<Rightarrow> Threw ReferenceError st)"

subsection \<open>Property setters\<close>

text \<open>
  The setter of \<^verbatim>\<open>type\<close>. \<^verbatim>\<open>getShapePrimitive\<close> and the constructor of \<^verbatim>\<open>MeshInstance\<close>
  are imported from modules that are not part of the sources at hand; they are
  parameters. The new mesh instance gets the next free reference.
\<close>

record primData =
  area :: nat
  prim_mesh :: nat

record shapes =
  getShapePrimitive :: "string \<Rightarrow> primData"
  newMeshInstance :: "nat \<Rightarrow> nat \<Rightarrow> nat \<Rightarrow> meshInstance"

definition set_type :: "shapes \<Rightarrow> string \<Rightarrow> scene \<Rightarrow> scene outcome" where
  "set_type sys v st =
     (if c_type (self st) \<noteq> v then
        (let st1 = st\<lparr>self := (self st)\<lparr>c_area := None, c_type := v\<rparr>\<rparr> in
         if v \<noteq> ''asset'' then
           (let primData = getShapePrimitive sys v;
                st2 = st1\<lparr>self := (self st1)\<lparr>c_area := Some (area primData)\<rparr>\<rparr>;
                st3 = st2\<lparr>heap := heap st2 @
                          [newMeshInstance sys (entity (self st2)) (prim_mesh primData)
                             (c_material (self st2))],
                        self := (self st2)\<lparr>c_meshInstances := Some [length (heap st2)]\<rparr>\<rparr>
            in if inTools st3 then generateWireframe st3 else Returned st3)
         else Returned st1)
      else Returned st)"

text \<open>The setter of \<^verbatim>\<open>lightmapped\<close>; \<^verbatim>\<open>setLightmapped(value)\<close> sets the flag of an instance.\<close>

definition set_lightmapped :: "bool \<Rightarrow> scene \<Rightarrow> scene" where
  "set_lightmapped v st =
     (if v \<noteq> c_lightmapped (self st) then
        (let st1 = st\<lparr>self := (self st)\<lparr>c_lightmapped := v\<rparr>\<rparr> in
         case c_meshInstances (self st1) of
           None \<Rightarrow> st1
         | Some mi \<Rightarrow> foldl (write_flag Lightmapped v) st1 mi)
      else st)"

text \<open>The setter of \<^verbatim>\<open>meshInstances\<close>.\<close>

definition stamp :: "scene \<Rightarrow> ref \<Rightarrow> scene" where
  "stamp st m =
     write_flag IsStatic (c_isStatic (self st))
       (write_flag ReceiveShadow (c_receiveShadows (self st))
         (write_flag CastShadow (c_castShadows (self st)) st m) m) m"

definition set_meshInstances :: "ref list option \<Rightarrow> scene \<Rightarrow> scene outcome" where
  "set_meshInstances v st =
     (case (if c_meshInstances (self st) \<noteq> None then removeFromLayers st else Returned st) of
        Threw e st1 \<Rightarrow> Threw e st1
      | Returned st1 \<Rightarrow>
          (let st2 = st1\<lparr>self := (self st1)\<lparr>c_meshInstances := v\<rparr>\<rparr> in
           case c_meshInstances (self st2) of
             None \<Rightarrow> Returned st2
           | Some mi \<Rightarrow>
               (let st3 = foldl stamp st2 mi;
                    st4 = set_lightmapped (c_lightmapped (self st3)) st3
                in if enabled (self st4) \<and> entity_enabled (self st4) then addToLayers st4
                   else Returned st4)))"

text \<open>The setter of \<^verbatim>\<open>castShadows\<close>.\<close>

definition set_castShadows :: "bool \<Rightarrow> scene \<Rightarrow> scene" where
  "set_castShadows v st =
     (if c_castShadows (self st) \<noteq> v then
        (let st' =
           (case c_meshInstances (self st) of
              None \<Rightarrow> st
            | Some mi \<Rightarrow>
                (let st1 = (if c_castShadows (self st) \<and> \<not> v
                            then foldl (on_layer RemoveShadowCasters mi) st (c_layers (self st))
                            else st);
                     st2 = foldl (write_flag CastShadow v) st1 mi;
                     st3 = (if \<not> c_castShadows (self st2) \<and> v
                            then foldl (on_layer AddShadowCasters mi) st2 (c_layers (self st2))
                            else st2)
                 in st3))
         in st'\<lparr>self := (self st')\<lparr>c_castShadows := v\<rparr>\<rparr>)
      else st)"

text \<open>
  The setter of \<^verbatim>\<open>receiveShadows\<close>. The loop body writes to \<^verbatim>\<open>meshInstances[i]\<close>, and no
  variable \<^verbatim>\<open>meshInstances\<close> is in scope (the local one is \<^verbatim>\<open>mi\<close>): a ReferenceError in
  the first pass of the loop, after \<^verbatim>\<open>_receiveShadows\<close> is set.
\<close>

definition set_receiveShadows :: "bool \<Rightarrow> scene \<Rightarrow> scene outcome" where
  "set_receiveShadows v st =
     (if c_receiveShadows (self st) \<noteq> v then
        (let st1 = st\<lparr>self := (self st)\<lparr>c_receiveShadows := v\<rparr>\<rparr> in
         case c_meshInstances (self st1) of
           None \<Rightarrow> Returned st1
         | Some [] \<Rightarrow> Returned st1
         | Some (m # ms) \<Rightarrow> Threw ReferenceError st1)
      else Returned st)"

text \<open>The setter of \<^verbatim>\<open>isStatic\<close>, which writes through the local \<^verbatim>\<open>mi\<close>.\<close>

definition set_isStatic :: "bool \<Rightarrow> scene \<Rightarrow> scene" where
  "set_isStatic v st =
     (if c_isStatic (self st) \<noteq> v then
        (let st1 = st\<lparr>self := (self st)\<lparr>c_isStatic := v\<rparr>\<rparr> in
         case c_meshInstances (self st1) of
           None \<Rightarrow> st1
         | Some mi \<Rightarrow> foldl (write_flag IsStatic v) st1 mi)
      else st)"

text \<open>The setter of \<^verbatim>\<open>batchGroupId\<close>.\<close>

definition set_batchGroupId :: "int \<Rightarrow> scene \<Rightarrow> scene outcome" where
  "set_batchGroupId v st =
     (if c_batchGroupId (self st) \<noteq> v then
        (let st1 = (if entity_enabled (self st) \<and> 0 \<le> c_batchGroupId (self st)
                    then on_batcher Remove (c_batchGroupId (self st)) (entity (self st)) st
                    else st);
             st2 = (if entity_enabled (self st1) \<and> 0 \<le> v
                    then on_batcher Insert v (entity (self st1)) st1
                    else st1)
         in case (if v < 0 \<and> 0 \<le> c_batchGroupId (self st2) \<and> enabled (self st2)
                     \<and> entity_enabled (self st2)
                  then addToLayers st2 else Returned st2) of
              Threw e st3 \<Rightarrow> Threw e st3
            | Returned st3 \<Rightarrow> Returned (st3\<lparr>self := (self st3)\<lparr>c_batchGroupId := v\<rparr>\<rparr>))
      else Returned st)"

subsection \<open>A scene\<close>

text \<open>
  An enabled component of type \<^verbatim>\<open>asset\<close> on an enabled entity, with one mesh instance
  (reference 0) that is registered in the world layer, also as a shadow caster; and the
  primitive and constructor that the setter of \<^verbatim>\<open>type\<close> is handed.
\<close>

definition asset_instance :: meshInstance where
  "asset_instance =
     \<lparr>node = 1, mesh = 50, material = 9, castShadow = True, receiveShadow = True,
      isStatic = False, lightmapped = False, visible = True\<rparr>"

definition asset_component :: component where
  "asset_component =
     \<lparr>c_type = ''asset'', c_castShadows = True, c_receiveShadows = True,
      c_castShadowsLightmap = True, c_lightmapped = False, c_lightmapSizeMultiplier = 1,
      c_isStatic = False, c_batchGroupId = - 1, c_meshInstances = Some [0],
      c_layers = [LAYERID_WORLD], c_material = 9, c_area = None, enabled = True, entity = 1,
      entity_enabled = True\<rparr>"

definition asset_scene :: scene where
  "asset_scene =
     \<lparr>heap = [asset_instance],
      layers = [(LAYERID_WORLD, \<lparr>meshInstances = [0], shadowCasters = [0]\<rparr>)],
      batcher = [], inTools = False, self = asset_component, effects = []\<rparr>"

definition box_shapes :: shapes where
  "box_shapes =
     \<lparr>getShapePrimitive = (\<lambda>name. \<lparr>area = 6, prim_mesh = 100\<rparr>),
      newMeshInstance = (\<lambda>n m mat.
        \<lparr>node = n, mesh = m, material = mat, castShadow = False, receiveShadow = True,
         isStatic = False, lightmapped = False, visible = True\<rparr>)\<rparr>"

text \<open>
  The ids of the layer set that resolve, in order: the layers a loop over
  \<^verbatim>\<open>this._layers\<close> calls.
\<close>

definition resolved :: "scene \<Rightarrow> nat list" where
  "resolved st = filter (\<lambda>i. getLayerById st i \<noteq> None) (c_layers (self st))"

text \<open>
  The scene after \<^verbatim>\<open>type\<close> is set to \<^verbatim>\<open>box\<close> in \<open>asset_scene\<close>: the component is enabled
  and holds the new mesh instance 1, which no layer holds.
\<close>

definition box_scene :: scene where
  "box_scene =
     asset_scene
       \<lparr>heap := [asset_instance, newMeshInstance box_shapes 1 100 9],
        self := asset_component\<lparr>c_type := ''box'', c_meshInstances := Some [1],
                                c_area := Some 6\<rparr>\<rparr>"

section \<open>Properties of the texture handler\<close>

subsection \<open>The comparisons with \<open>requiredMipLevels\<close>\<close>

lemma below_required_log2:
  assumes "1 \<le> max w h"
  shows "below_required level w h \<longleftrightarrow> real level < requiredMipLevels w h"
proof -
  define m where "m = max w h"
  have pos: "0 < real_of_int m"
    using assms by (simp add: m_def)
  have "real level < log 2 (real_of_int m) + 1 \<longleftrightarrow> real level - 1 < log 2 (real_of_int m)"
    by linarith
  also have "\<dots> \<longleftrightarrow> 2 powr (real level - 1) < real_of_int m"
    using pos by (simp add: less_log_iff)
  also have "\<dots> \<longleftrightarrow> 2 ^ level / 2 < real_of_int m"
    by (simp add: powr_diff powr_realpow)
  also have "\<dots> \<longleftrightarrow> (2::real) ^ level < 2 * real_of_int m"
    by (simp add: field_simps)
  also have "\<dots> \<longleftrightarrow> real_of_int (2 ^ level) < real_of_int (2 * m)"
    by simp
  also have "\<dots> \<longleftrightarrow> (2::int) ^ level < 2 * m"
    by (simp only: of_int_less_iff)
  finally show ?thesis
    using assms by (simp add: below_required_def requiredMipLevels_def m_def)
qed

lemma equals_required_log2:
  assumes "1 \<le> max w h"
  shows "equals_required n w h \<longleftrightarrow> real n = requiredMipLevels w h"
proof -
  define m where "m = max w h"
  have pos: "0 < real_of_int m"
    using assms by (simp add: m_def)
  have "real n = log 2 (real_of_int m) + 1 \<longleftrightarrow> log 2 (real_of_int m) = real n - 1"
    by linarith
  also have "\<dots> \<longleftrightarrow> real_of_int m = 2 powr (real n - 1)"
  proof
    assume "log 2 (real_of_int m) = real n - 1"
    then have "2 powr (real n - 1) = 2 powr log 2 (real_of_int m)"
      by simp
    also have "\<dots> = real_of_int m"
      using pos by simp
    finally show "real_of_int m = 2 powr (real n - 1)"
      by simp
  next
    assume "real_of_int m = 2 powr (real n - 1)"
    then show "log 2 (real_of_int m) = real n - 1"
      by simp
  qed
  also have "\<dots> \<longleftrightarrow> real_of_int m = 2 ^ n / 2"
    by (simp add: powr_diff powr_realpow)
  also have "\<dots> \<longleftrightarrow> (2::real) ^ n = 2 * real_of_int m"
    by (auto simp add: field_simps)
  also have "\<dots> \<longleftrightarrow> real_of_int (2 ^ n) = real_of_int (2 * m)"
    by simp
  also have "\<dots> \<longleftrightarrow> (2::int) ^ n = 2 * m"
    by (simp only: of_int_eq_iff)
  finally show ?thesis
    using assms by (simp add: equals_required_def requiredMipLevels_def m_def)
qed

subsection \<open>Opening\<close>

text \<open>
  C10. For a falsy url, whatever the data, \<^verbatim>\<open>TextureHandler.open\<close> returns
  \<^verbatim>\<open>undefined\<close>: no parser is called and no placeholder texture is made.
\<close>

theorem open_falsy_url_undefined:
  "falsy_url url \<Longrightarrow> open_texture store handler url data = (Returned Undefined, [])"
  by (simp add: open_texture_def)

theorem open_falsy_url_undefined_witness:
  "falsy_url (Some []) \<and>
   open_texture store_u8
     \<lparr>getExtension = (\<lambda>path. path), parserOpen = (\<lambda>parser url data. None)\<rparr>
     (Some []) (0::nat) = (Returned Undefined, [])"
proof -
  have f: "falsy_url (Some [])"
    by (simp add: falsy_url_def)
  show ?thesis
    using f open_falsy_url_undefined [OF f] by simp
qed

text \<open>
  C7. For a url that is not falsy and data for which the \<^verbatim>\<open>open\<close> of the selected parser
  returns \<^verbatim>\<open>null\<close>, \<^verbatim>\<open>TextureHandler.open\<close> returns a texture, the placeholder of width 4
  and height 4 in the format \<^verbatim>\<open>PIXELFORMAT_R8_G8_B8\<close>; it does not throw and does not
  return \<^verbatim>\<open>undefined\<close> or \<^verbatim>\<open>null\<close>.
\<close>

theorem open_undecodable_gives_placeholder:
  assumes "\<not> falsy_url url"
    and "getParser (getExtension handler) (the url) = parser"
    and "parser \<noteq> NotAParser"
    and "parserOpen handler parser (the url) data = None"
  shows "\<exists>texture. open_texture store handler url data = (Returned (Texture texture), [parser])
           \<and> t_width texture = 4 \<and> t_height texture = 4
           \<and> t_format texture = PIXELFORMAT_R8_G8_B8"
  using assms by (simp add: open_texture_def new_Texture_def)

theorem open_undecodable_gives_placeholder_witness:
  "\<not> falsy_url (Some ''wood.DDS?v=2'')
   \<and> getParser (\<lambda>path. ''.DDS'') ''wood.DDS?v=2'' = DdsParser
   \<and> (\<exists>texture.
        open_texture store_u8
          \<lparr>getExtension = (\<lambda>path. ''.DDS''), parserOpen = (\<lambda>parser url data. None)\<rparr>
          (Some ''wood.DDS?v=2'') (0::nat) = (Returned (Texture texture), [DdsParser])
        \<and> t_width texture = 4 \<and> t_height texture = 4
        \<and> t_format texture = PIXELFORMAT_R8_G8_B8)"
proof -
  let ?h = "\<lparr>getExtension = (\<lambda>path. ''.DDS''),
             parserOpen = (\<lambda>parser url data. None :: nat texture option)\<rparr>"
  have a: "\<not> falsy_url (Some ''wood.DDS?v=2'')"
    by (simp add: falsy_url_def)
  have b: "getParser (getExtension ?h) (the (Some ''wood.DDS?v=2'')) = DdsParser"
    by (simp add: getParser_def toLowerCase_def lower_char_def getUrlWithoutParams_def)
  have c: "DdsParser \<noteq> NotAParser"
    by simp
  have d: "parserOpen ?h DdsParser (the (Some ''wood.DDS?v=2'')) (0::nat) = None"
    by simp
  from open_undecodable_gives_placeholder [OF a b c d, of store_u8] a b show ?thesis
    by simp
qed

subsection \<open>The completion loop\<close>

text \<open>
  The loop changes the list of levels only, and only by appending to it.
\<close>

lemma step_levels_frame:
  "step_levels store level t = Returned t' \<Longrightarrow>
     t_cubemap t' = t_cubemap t \<and> t_levelsUpdated t' = t_levelsUpdated t
     \<and> t_width t' = t_width t \<and> t_height t' = t_height t \<and> t_format t' = t_format t
     \<and> t_volume t' = t_volume t \<and> t_compressed t' = t_compressed t
     \<and> length (t_levels t) \<le> length (t_levels t')
     \<and> take (length (t_levels t)) (t_levels t') = t_levels t"
proof (induction store level t rule: step_levels.induct)
  case (1 store level t)
  show ?case
  proof (cases "below_required level (t_width t) (t_height t)")
    case False
    with "1.prems" show ?thesis by (simp add: step_levels.simps)
  next
    case True
    show ?thesis
    proof (cases "next_level store level t")
      case None
      with True "1.prems" show ?thesis by (simp add: step_levels.simps)
    next
      case (Some mips)
      with True "1.prems" have r: "step_levels store (Suc level) (t\<lparr>t_levels := t_levels t @ [mips]\<rparr>) = Returned t'"
        by (simp add: step_levels.simps)
      from "1.IH"[OF True Some r] show ?thesis
        by (auto simp: take_Suc_conv_app_nth dest: arg_cong[where f="take (length (t_levels t))"])
    qed
  qed
qed

text \<open>
  \<^verbatim>\<open>downsample\<close> gives four values for each pixel of the halved width and height.
\<close>

lemma length_downsample:
  "length (downsample store width height data) = nat (4 * halved width * halved height)"
proof -
  have pos: "0 < halved width" "0 < halved height"
    by (simp_all add: halved_def)
  have "length (downsample store width height data) = nat (halved height) * (nat (halved width) * 4)"
    by (simp add: downsample_def Let_def length_concat comp_def sum_list_triv halved_def)
  also have "\<dots> = nat (4 * halved width * halved height)"
    using pos by (simp add: nat_mult_distrib mult.commute mult.left_commute)
  finally show ?thesis .
qed

lemma those_map_Some:
  "(\<And>x. x \<in> set xs \<Longrightarrow> f x = Some (g x)) \<Longrightarrow> those (map f xs) = Some (map g xs)"
  by (induction xs) auto

lemma downsample_source_array:
  "s \<noteq> HtmlElement \<Longrightarrow> s \<noteq> Absent \<Longrightarrow>
     \<exists>data. downsample_source store w h s = Some (Pixels data) \<and> length data = nat (4 * halved w * halved h)"
  by (cases s) (simp_all add: length_downsample)

lemma level_at_last:
  "levels \<noteq> [] \<Longrightarrow> level_at levels (int (length levels) - 1) = Some (last levels)"
  by (cases levels rule: rev_cases) (simp_all add: level_at_def nth_append)

text \<open>
  After a level of raw pixel data the loop body does not throw, and the level it pushes
  is raw pixel data of the synthesized size.
\<close>

lemma next_level_raw:
  assumes "level = length (t_levels t)" and "t_levels t \<noteq> []"
    and "raw_level (t_cubemap t) (last (t_levels t))"
  shows "\<exists>mips. next_level store level t = Some mips \<and> raw_level (t_cubemap t) mips
           \<and> level_sizes mips = replicate (if t_cubemap t then 6 else 1) (synthesized_size t level)"
proof (cases "last (t_levels t)")
  case (Single s)
  with assms(3) obtain data where s: "s = Pixels data" and nc: "\<not> t_cubemap t"
    by (cases s) auto
  show ?thesis
    using assms(1,2) Single s nc
    by (simp add: next_level_def level_at_last Let_def length_downsample synthesized_size_def)
next
  case (Faces faces)
  with assms(3) have c: "t_cubemap t" and six: "six_arrays faces"
    by auto
  let ?w = "max 1 (shr (t_width t) (int level - 1))"
  let ?h = "max 1 (shr (t_height t) (int level - 1))"
  let ?f = "\<lambda>face. downsample_source store ?w ?h (face_at faces face)"
  have ex: "\<And>face. face \<in> set [0..<6] \<Longrightarrow>
      \<exists>data. ?f face = Some (Pixels data) \<and> length data = nat (4 * halved ?w * halved ?h)"
    using six by (intro downsample_source_array) (auto simp: six_arrays_def list_all_iff)
  define g where "g = (\<lambda>face. the (?f face))"
  have fg: "?f face = Some (g face)" if "face \<in> set [0..<6]" for face
    using ex[OF that] by (auto simp: g_def)
  have gp: "\<exists>data. g face = Pixels data \<and> length data = nat (4 * halved ?w * halved ?h)"
    if "face < 6" for face
    using ex[of face] that by (auto simp: g_def)
  have th: "those (map ?f [0..<6]) = Some (map g [0..<6])"
    by (rule those_map_Some) (rule fg)
  have nl: "next_level store level t = Some (Faces (map g [0..<6]))"
    using assms(1,2) Faces c th by (simp add: next_level_def level_at_last Let_def)
  have six': "six_arrays (map g [0..<6])"
    using gp by (fastforce simp: six_arrays_def list_all_iff face_at_def)
  have sz: "map source_size (map g [0..<6]) = replicate 6 (synthesized_size t level)"
  proof (rule nth_equalityI)
    show "length (map source_size (map g [0..<6])) = length (replicate 6 (synthesized_size t level))"
      by simp
  next
    fix i assume "i < length (map source_size (map g [0..<6]))"
    then have i: "i < 6" by simp
    with gp[of i] show "map source_size (map g [0..<6]) ! i = replicate 6 (synthesized_size t level) ! i"
      by (auto simp: synthesized_size_def)
  qed
  show ?thesis
    using nl six' sz c by simp
qed

text \<open>
  So the loop, started at the level count after a raw level, returns; it stops at the
  first count that is not below \<open>requiredMipLevels\<close>.
\<close>

lemma step_levels_completes:
  assumes "level = length (t_levels t)" and "t_levels t \<noteq> []"
    and "raw_level (t_cubemap t) (last (t_levels t))"
  shows "\<exists>t'. step_levels store level t = Returned t'
      \<and> \<not> below_required (length (t_levels t')) (t_width t) (t_height t)
      \<and> (below_required level (t_width t) (t_height t) \<longrightarrow>
           below_required (length (t_levels t') - 1) (t_width t) (t_height t))
      \<and> (\<forall>l. level \<le> l \<and> l < length (t_levels t') \<longrightarrow>
           level_sizes (t_levels t' ! l) =
             replicate (if t_cubemap t then 6 else 1) (synthesized_size t l))"
  using assms
proof (induction store level t rule: step_levels.induct)
  case (1 store level t)
  show ?case
  proof (cases "below_required level (t_width t) (t_height t)")
    case False
    with "1.prems" show ?thesis
      by (auto simp add: step_levels.simps)
  next
    case True
    from next_level_raw[OF "1.prems", of store] obtain mips where
      nl: "next_level store level t = Some mips" and raw: "raw_level (t_cubemap t) mips"
      and sz: "level_sizes mips = replicate (if t_cubemap t then 6 else 1) (synthesized_size t level)"
      by blast
    let ?t = "t\<lparr>t_levels := t_levels t @ [mips]\<rparr>"
    have p: "Suc level = length (t_levels ?t)" "t_levels ?t \<noteq> []"
      "raw_level (t_cubemap ?t) (last (t_levels ?t))"
      using "1.prems"(1) raw by simp_all
    from "1.IH"[OF True nl p] obtain t' where
      r: "step_levels store (Suc level) ?t = Returned t'"
      and nb: "\<not> below_required (length (t_levels t')) (t_width t) (t_height t)"
      and b2: "below_required (Suc level) (t_width t) (t_height t) \<longrightarrow>
           below_required (length (t_levels t') - 1) (t_width t) (t_height t)"
      and szs: "\<forall>l. Suc level \<le> l \<and> l < length (t_levels t') \<longrightarrow>
           level_sizes (t_levels t' ! l) =
             replicate (if t_cubemap t then 6 else 1) (synthesized_size t l)"
      by (auto simp: synthesized_size_def)
    from step_levels_frame[OF r] have
      len: "Suc level \<le> length (t_levels t')"
      and tk: "take (Suc level) (t_levels t') = t_levels t @ [mips]"
      using "1.prems"(1) by simp_all
    have at: "t_levels t' ! level = mips"
    proof -
      have "take (Suc level) (t_levels t') ! level = t_levels t' ! level"
        by (rule nth_take) simp
      moreover have "(t_levels t @ [mips]) ! level = mips"
        using "1.prems"(1) by simp
      ultimately show ?thesis
        by (simp only: tk)
    qed
    have st: "step_levels store level t = Returned t'"
      using True nl r by (simp add: step_levels.simps)
    have b1: "below_required (length (t_levels t') - 1) (t_width t) (t_height t)"
    proof (cases "below_required (Suc level) (t_width t) (t_height t)")
      case True
      with b2 show ?thesis by simp
    next
      case False
      with r have "t' = ?t"
        by (simp add: step_levels.simps)
      then have "length (t_levels t') - 1 = level"
        using "1.prems"(1) by simp
      with \<open>below_required level (t_width t) (t_height t)\<close> show ?thesis by simp
    qed
    have all: "\<forall>l. level \<le> l \<and> l < length (t_levels t') \<longrightarrow>
           level_sizes (t_levels t' ! l) =
             replicate (if t_cubemap t then 6 else 1) (synthesized_size t l)"
    proof (intro allI impI)
      fix l assume l: "level \<le> l \<and> l < length (t_levels t')"
      show "level_sizes (t_levels t' ! l) =
             replicate (if t_cubemap t then 6 else 1) (synthesized_size t l)"
      proof (cases "l = level")
        case True
        with at sz show ?thesis by simp
      next
        case False
        with l szs show ?thesis by simp
      qed
    qed
    from st nb b1 all show ?thesis by simp
  qed
qed

subsection \<open>The length of the completed chain\<close>

lemma eligible_max_bounds:
  assumes "eligible t"
  shows "1 \<le> max (t_width t) (t_height t)"
    and "(2::int) ^ (fullChainLength t - 1) \<le> max (t_width t) (t_height t)"
    and "max (t_width t) (t_height t) < 2 ^ fullChainLength t"
    and "2 ^ length (t_levels t) \<le> max (t_width t) (t_height t)"
proof -
  define m where "m = nat (max (t_width t) (t_height t))"
  have Fm: "fullChainLength t = floorlog 2 m"
    by (simp add: fullChainLength_def m_def)
  have F: "1 < length (t_levels t)" "length (t_levels t) < floorlog 2 m"
    using assms by (simp_all add: eligible_def Fm)
  then have mpos: "0 < m"
    by (cases "m = 0") (simp_all add: floorlog_def)
  then show one: "1 \<le> max (t_width t) (t_height t)"
    by (simp add: m_def)
  from floorlog_bounds[OF mpos, of 2]
  have b: "2 ^ (floorlog 2 m - 1) \<le> m" "m < 2 ^ floorlog 2 m"
    by simp_all
  have im: "int m = max (t_width t) (t_height t)"
    using one by (simp add: m_def)
  from b(1) have "int (2 ^ (floorlog 2 m - 1)) \<le> int m"
    by (simp only: of_nat_le_iff)
  then have "(2::int) ^ (floorlog 2 m - 1) \<le> int m"
    by simp
  then show lo: "(2::int) ^ (fullChainLength t - 1) \<le> max (t_width t) (t_height t)"
    by (simp only: im Fm)
  from b(2) have "int m < int (2 ^ floorlog 2 m)"
    by (simp only: of_nat_less_iff)
  then have "int m < 2 ^ floorlog 2 m"
    by simp
  then show "max (t_width t) (t_height t) < 2 ^ fullChainLength t"
    by (simp only: im Fm)
  have "(2::int) ^ length (t_levels t) \<le> 2 ^ (fullChainLength t - 1)"
    using F(2) by (intro power_increasing) (simp_all add: Fm)
  with lo show "2 ^ length (t_levels t) \<le> max (t_width t) (t_height t)"
    by linarith
qed
text \<open>
  What the pass does on an eligible texture whose last level is raw pixel data: it
  returns, the levels present stay, and levels are appended until the count reaches
  \<open>requiredMipLevels\<close> or passes it. The chain ends at the full chain length when the
  larger dimension is a power of two, and one level later otherwise. Every appended
  level has the size of the halved previous level.
\<close>

lemma complete_eligible:
  assumes "eligible t" and "raw_level (t_cubemap t) (last (t_levels t))"
  shows "\<exists>t'. completePartialMipmapChain store t = Returned t'
      \<and> take (length (t_levels t)) (t_levels t') = t_levels t
      \<and> length (t_levels t') =
          (if max (t_width t) (t_height t) = 2 ^ (fullChainLength t - 1)
           then fullChainLength t else fullChainLength t + 1)
      \<and> (\<forall>l. length (t_levels t) \<le> l \<and> l < length (t_levels t') \<longrightarrow>
           level_sizes (t_levels t' ! l) =
             replicate (if t_cubemap t then 6 else 1) (synthesized_size t l))"
proof -
  define m where "m = max (t_width t) (t_height t)"
  define F where "F = fullChainLength t"
  define n where "n = length (t_levels t)"
  note mb = eligible_max_bounds[OF assms(1), folded m_def F_def n_def]
  have n: "1 < n" "n < F"
    using assms(1) by (simp_all add: eligible_def n_def F_def)
  have ne: "t_levels t \<noteq> []"
    using n by (auto simp: n_def)
  have below: "below_required n (t_width t) (t_height t)"
    using mb by (simp add: below_required_def m_def[symmetric])
  have noteq: "\<not> equals_required n (t_width t) (t_height t)"
    using mb by (simp add: equals_required_def m_def[symmetric])
  from step_levels_completes[OF refl ne assms(2), of store] obtain t1 where
    r: "step_levels store (length (t_levels t)) t = Returned t1"
    and nb: "\<not> below_required (length (t_levels t1)) (t_width t) (t_height t)"
    and b1: "below_required (length (t_levels t1) - 1) (t_width t) (t_height t)"
    and sz: "\<forall>l. length (t_levels t) \<le> l \<and> l < length (t_levels t1) \<longrightarrow>
           level_sizes (t_levels t1 ! l) =
             replicate (if t_cubemap t then 6 else 1) (synthesized_size t l)"
    using below by (auto simp: n_def)
  define L where "L = length (t_levels t1)"
  have hi: "2 * m \<le> 2 ^ L"
    using nb mb(1) by (simp add: below_required_def m_def L_def)
  have lo: "(2::int) ^ (L - 1) < 2 * m"
    using b1 by (simp add: below_required_def m_def L_def)
  have Lpos: "0 < L"
    using hi mb(1) by (cases L) auto
  have Fpos: "0 < F"
    using n by simp
  have "(2::int) ^ F \<le> 2 ^ L"
  proof -
    have "(2::int) ^ F = 2 * 2 ^ (F - 1)"
      using Fpos by (cases F) simp_all
    also have "\<dots> \<le> 2 * m"
      using mb(2) by simp
    finally show ?thesis
      using hi by linarith
  qed
  then have FL: "F \<le> L"
    by simp
  have lt: "(2::int) ^ (L - 1) < 2 ^ (F + 1)"
    using lo mb(3) by simp
  have "L - 1 < F + 1"
    by (rule power_less_imp_less_exp[OF _ lt]) simp
  then have LF: "L \<le> F + 1"
    by simp
  have len: "L = (if m = 2 ^ (F - 1) then F else F + 1)"
  proof (cases "m = 2 ^ (F - 1)")
    case True
    then have "2 * m = 2 ^ F"
      using Fpos by (cases F) simp_all
    with lo have lt2: "(2::int) ^ (L - 1) < 2 ^ F"
      by simp
    have "L - 1 < F"
      by (rule power_less_imp_less_exp[OF _ lt2]) simp
    with FL True show ?thesis
      by simp
  next
    case False
    with mb(2) have "(2::int) ^ (F - 1) < m"
      by simp
    then have "(2::int) ^ F < 2 * m"
      using Fpos by (cases F) simp_all
    with hi have lt3: "(2::int) ^ F < 2 ^ L"
      by linarith
    have "F < L"
      by (rule power_less_imp_less_exp[OF _ lt3]) simp
    with LF False show ?thesis
      by simp
  qed
  have l0: "level0 t \<noteq> None" "level0 t \<noteq> Some HtmlElement"
    using assms(1) by (simp_all add: eligible_def)
  then obtain object where ob: "level0 t = Some object" "object \<noteq> HtmlElement"
    by (cases "level0 t") auto
  let ?t' = "t1\<lparr>t_levelsUpdated :=
      (if t_cubemap t1 then [FaceFlags [True, True, True, True, True, True]] else [Flag True])\<rparr>"
  have c: "completePartialMipmapChain store t = Returned ?t'"
    using assms(1) n noteq ob r
    by (simp add: completePartialMipmapChain_def eligible_def isHtmlElement_def n_def)
  have tk: "take (length (t_levels t)) (t_levels ?t') = t_levels t"
    using step_levels_frame[OF r] by simp
  show ?thesis
    using c tk len sz by (simp add: L_def m_def F_def)
qed

text \<open>
  For a texture whose larger dimension is a power of two the completed chain has the
  full chain length.
\<close>

lemma complete_eligible_power_of_two:
  assumes "eligible t" and "raw_level (t_cubemap t) (last (t_levels t))"
    and "max (t_width t) (t_height t) = 2 ^ k"
  shows "\<exists>t'. completePartialMipmapChain store t = Returned t'
      \<and> length (t_levels t') = fullChainLength t"
proof -
  have "fullChainLength t = floorlog 2 (1 * 2 ^ k)"
    using assms(3) by (simp add: fullChainLength_def nat_power_eq)
  also have "\<dots> = floorlog 2 1 + k"
    by (rule floorlog_power) simp_all
  also have "\<dots> = k + 1"
    by (simp add: compute_floorlog)
  finally have "max (t_width t) (t_height t) = 2 ^ (fullChainLength t - 1)"
    using assms(3) by simp
  with complete_eligible[OF assms(1,2), of store] show ?thesis
    by auto
qed

text \<open>
  The dimension the code halves for level \<open>l\<close> is the one the level before has, and
  halving it gives the dimension of level \<open>l\<close>: for a dimension below \<open>2 ^ 31\<close> and a
  level of at most 31, \<open>max 1 (max 1 (dim >> (l - 1)) >> 1) = max 1 (dim div 2 ^ l)\<close>.
\<close>

lemma shr_in_range:
  assumes "0 \<le> x" and "x < 2 ^ 31" and "0 \<le> n" and "n < 32"
  shows "shr x n = x div 2 ^ nat n"
  using assms by (simp add: shr_def toInt32_def Let_def)

lemma halved_previous_dimension:
  assumes "0 \<le> x" and "x < 2 ^ 31" and "1 \<le> l" and "l \<le> 31"
  shows "halved (max 1 (shr x (int l - 1))) = max 1 (x div 2 ^ l)"
proof -
  have n: "nat (int l - 1) = l - 1"
    using assms(3) by simp
  have s: "shr x (int l - 1) = x div 2 ^ (l - 1)"
    using assms by (simp add: shr_in_range n)
  define p where "p = max 1 (x div 2 ^ (l - 1))"
  have nn: "0 \<le> x div 2 ^ (l - 1)"
    using assms(1) by (simp add: pos_imp_zdiv_nonneg_iff)
  have "x div 2 ^ (l - 1) \<le> x"
  proof (cases "x = 0")
    case True
    then show ?thesis by simp
  next
    case False
    with assms(1) have "0 < x" by simp
    then show ?thesis by (rule int_div_le_self)
  qed
  then have pr: "0 \<le> p" "p < 2 ^ 31"
    using assms(2) by (simp_all add: p_def)
  have h: "halved p = max 1 (p div 2)"
    using pr by (simp add: halved_def shr_in_range)
  have l: "(2::int) ^ l = 2 ^ (l - 1) * 2"
    using assms(3) by (cases l) simp_all
  have d: "x div 2 ^ l = (x div 2 ^ (l - 1)) div 2"
    unfolding l by (rule zdiv_zmult2_eq) simp
  show ?thesis
    unfolding s p_def[symmetric] h d
    using nn by (auto simp: p_def max_def)
qed

text \<open>
  C1. The 5 by 1 texture with two levels is eligible and its full chain has 3 levels
  (5 by 1, 2 by 1, 1 by 1). The pass appends two levels: the chain ends with 4.
\<close>

theorem complete_npot_one_level_too_many:
  "eligible npot_texture
   \<and> fullChainLength npot_texture = 3
   \<and> completePartialMipmapChain store_u8 npot_texture =
       Returned (npot_texture\<lparr>t_levels := t_levels npot_texture @
         [Single (Pixels [40, 50, 60, 255]), Single (Pixels [40, 50, 60, 255])]\<rparr>)
   \<and> length (t_levels npot_texture @
         [Single (Pixels [40, 50, 60, 255]), Single (Pixels [40, 50, 60, 255 :: nat])]) = 4"
  by code_simp

subsection \<open>The levels-updated state\<close>

lemma pow2_completed:
  "completePartialMipmapChain store_u8 pow2_texture =
     Returned (pow2_texture\<lparr>t_levels := t_levels pow2_texture @
       [Single (Pixels [40, 50, 60, 255])]\<rparr>)"
  by code_simp

text \<open>
  C8, as stated, fails: on the 4 by 1 texture with two levels the pass synthesizes
  level 2, and the levels-updated state it leaves has the one entry of level 0; level 2
  is not marked.
\<close>

theorem synthesized_level_not_marked:
  "completePartialMipmapChain store_u8 pow2_texture =
     Returned (pow2_texture\<lparr>t_levels := t_levels pow2_texture @
       [Single (Pixels [40, 50, 60, 255])]\<rparr>)
   \<and> length (t_levels pow2_texture) = 2
   \<and> length (t_levels (pow2_texture\<lparr>t_levels := t_levels pow2_texture @
       [Single (Pixels [40, 50, 60, 255])]\<rparr>)) = 3
   \<and> \<not> marked_dirty (t_levelsUpdated (pow2_texture\<lparr>t_levels := t_levels pow2_texture @
       [Single (Pixels [40, 50, 60, 255])]\<rparr>)) 2"
  using pow2_completed by (simp add: pow2_texture_def marked_dirty_def)

text \<open>
  C8, amended. When the pass returns with more levels than it found, the
  levels-updated state is the single entry that marks level 0 dirty, with all six faces
  for a cube map; no other level index is marked.
\<close>

theorem completion_marks_level_0_only:
  assumes "completePartialMipmapChain store t = Returned t'"
    and "length (t_levels t) < length (t_levels t')"
  shows "t_levelsUpdated t' =
           (if t_cubemap t then [FaceFlags [True, True, True, True, True, True]]
            else [Flag True])
         \<and> marked_dirty (t_levelsUpdated t') 0
         \<and> (\<forall>level. marked_dirty (t_levelsUpdated t') level \<longrightarrow> level = 0)"
proof -
  from assms obtain t1 where
    r: "step_levels store (length (t_levels t)) t = Returned t1"
    and t': "t' = t1\<lparr>t_levelsUpdated :=
      (if t_cubemap t1 then [FaceFlags [True, True, True, True, True, True]]
       else [Flag True])\<rparr>"
    by (auto simp: completePartialMipmapChain_def split: if_splits option.splits outcome.splits)
  from step_levels_frame[OF r] have "t_cubemap t1 = t_cubemap t"
    by simp
  with t' show ?thesis
    by (auto simp: marked_dirty_def)
qed

theorem completion_marks_level_0_only_witness:
  "completePartialMipmapChain store_u8 pow2_texture =
     Returned (pow2_texture\<lparr>t_levels := t_levels pow2_texture @
       [Single (Pixels [40, 50, 60, 255])]\<rparr>)
   \<and> length (t_levels pow2_texture) <
       length (t_levels (pow2_texture\<lparr>t_levels := t_levels pow2_texture @
         [Single (Pixels [40, 50, 60, 255])]\<rparr>))
   \<and> t_levelsUpdated (pow2_texture\<lparr>t_levels := t_levels pow2_texture @
       [Single (Pixels [40, 50, 60, 255])]\<rparr>) = [Flag True]
   \<and> marked_dirty (t_levelsUpdated (pow2_texture\<lparr>t_levels := t_levels pow2_texture @
       [Single (Pixels [40, 50, 60, 255])]\<rparr>)) 0"
proof -
  let ?t' = "pow2_texture\<lparr>t_levels := t_levels pow2_texture @
       [Single (Pixels [40, 50, 60, 255])]\<rparr>"
  have l: "length (t_levels pow2_texture) < length (t_levels ?t')"
    by simp
  from completion_marks_level_0_only [OF pow2_completed l] pow2_completed l show ?thesis
    by (simp add: pow2_texture_def)
qed

section \<open>Properties of the render handler\<close>

text \<open>
  C2. For a render asset that names a container asset which the registry does not hold,
  \<^verbatim>\<open>patch\<close> throws a TypeError: nothing is subscribed, no load is requested, and the
  render asset is as before.
\<close>

theorem patch_unregistered_throws:
  assumes "\<not> falsy_id (containerAsset asset)"
    and "get r (the (containerAsset asset)) = None"
  shows "patch asset r = Threw TypeError (asset, r)"
  using assms by (simp add: patch_def)

theorem patch_unregistered_throws_witness:
  "\<not> falsy_id (containerAsset render_asset)
   \<and> get no_assets (the (containerAsset render_asset)) = None
   \<and> patch render_asset no_assets = Threw TypeError (render_asset, no_assets)"
proof -
  have a: "\<not> falsy_id (containerAsset render_asset)"
    by (simp add: falsy_id_def render_asset_def)
  have b: "get no_assets (the (containerAsset render_asset)) = None"
    by (simp add: get_def no_assets_def)
  from patch_unregistered_throws [OF a b] a b show ?thesis
    by simp
qed

text \<open>
  The other two cases of C2 do converge. With the container registered and loaded,
  \<^verbatim>\<open>patch\<close> extracts at once. With the container registered and not loaded, \<^verbatim>\<open>patch\<close>
  subscribes and requests the load; when the load finishes, the one subscription fires,
  the render asset is the one of the first case, and no subscription is left.
\<close>

lemma patch_loaded:
  assumes "\<not> falsy_id (containerAsset asset)"
    and "get r (the (containerAsset asset)) = Some container" and "loaded container"
  shows "patch asset r = lift_asset r (onContainerAssetLoaded asset container)"
  using assms by (simp add: patch_def)

lemma patch_unloaded:
  assumes "\<not> falsy_id (containerAsset asset)"
    and "get r (the (containerAsset asset)) = Some container" and "\<not> loaded container"
  shows "patch asset r =
    Returned (asset,
      r\<lparr>subscriptions :=
          subscriptions r @ [(LoadEvent (container_id container), OnContainerAssetLoaded)],
        loads := loads r @ [container_id container]\<rparr>)"
  using assms by (simp add: patch_def load_def once_def)

lemma patch_unloaded_then_loaded:
  assumes "\<not> falsy_id (containerAsset asset)"
    and "get r (the (containerAsset asset)) = Some container" and "\<not> loaded container"
    and "subscriptions r = []"
    and "patch asset r = Returned s"
    and "onContainerAssetLoaded asset (loaded_with rs container) = Returned asset'"
  shows "\<exists>r'. finish_load rs container s = Returned (asset', r') \<and> subscriptions r' = []
           \<and> get r' (container_id container) = Some (loaded_with rs container)"
  using assms
  by (auto simp: patch_def load_def once_def finish_load_def fire_def run_handler_def get_def
      update_Some_unfold)

lemma patch_loaded_7:
  "patch render_asset holds_loaded_7 =
     Returned (render_asset\<lparr>resource := Some \<lparr>meshes = Some 42\<rparr>\<rparr>, holds_loaded_7)"
  by (simp add: patch_def render_asset_def holds_loaded_7_def falsy_id_def get_def
      loaded_with_def unloaded_7_def resources_7_def onContainerAssetLoaded_def render_at_def)

lemma patch_unloaded_7_then_loaded:
  "patch render_asset holds_unloaded_7 =
     Returned (render_asset,
       holds_unloaded_7\<lparr>subscriptions := [(LoadEvent 7, OnContainerAssetLoaded)], loads := [7]\<rparr>)
   \<and> finish_load resources_7 unloaded_7
       (render_asset,
        holds_unloaded_7\<lparr>subscriptions := [(LoadEvent 7, OnContainerAssetLoaded)], loads := [7]\<rparr>) =
     Returned (render_asset\<lparr>resource := Some \<lparr>meshes = Some 42\<rparr>\<rparr>,
       holds_loaded_7\<lparr>loads := [7]\<rparr>)"
  by (simp add: patch_def render_asset_def holds_unloaded_7_def holds_loaded_7_def falsy_id_def
      get_def loaded_with_def unloaded_7_def resources_7_def onContainerAssetLoaded_def
      render_at_def load_def once_def finish_load_def fire_def run_handler_def)

text \<open>
  C6, as stated, fails: the render asset without a resource names container 7, which
  the registry holds unloaded; \<^verbatim>\<open>patch\<close> subscribes to \<open>load:7\<close> and requests the load.
\<close>

theorem patch_without_resource_subscribes:
  "resource empty_asset = None
   \<and> patch empty_asset holds_unloaded_7 =
       Returned (empty_asset,
         holds_unloaded_7\<lparr>subscriptions := [(LoadEvent 7, OnContainerAssetLoaded)], loads := [7]\<rparr>)
   \<and> subscriptions holds_unloaded_7 = [] \<and> loads holds_unloaded_7 = []"
  by (simp add: patch_def empty_asset_def holds_unloaded_7_def unloaded_7_def falsy_id_def get_def
      load_def once_def)

text \<open>
  C6, amended. For a render asset whose resource is falsy the extraction step
  \<^verbatim>\<open>onContainerAssetLoaded\<close> returns at once and changes nothing. So \<^verbatim>\<open>patch\<close> changes
  nothing, subscribes to nothing and requests no load when the asset names no container
  or when the container is registered and loaded. When the container is registered and
  not loaded, \<^verbatim>\<open>patch\<close> still subscribes once to \<open>load:<id>\<close> and requests the load; the
  render asset is unchanged.
\<close>

theorem patch_without_resource:
  assumes "resource asset = None"
  shows "onContainerAssetLoaded asset container = Returned asset
    \<and> (falsy_id (containerAsset asset) \<longrightarrow> patch asset r = Returned (asset, r))
    \<and> (\<not> falsy_id (containerAsset asset) \<and> get r (the (containerAsset asset)) = Some container
           \<and> loaded container \<longrightarrow> patch asset r = Returned (asset, r))
    \<and> (\<not> falsy_id (containerAsset asset) \<and> get r (the (containerAsset asset)) = Some container
           \<and> \<not> loaded container \<longrightarrow>
         patch asset r =
           Returned (asset,
             r\<lparr>subscriptions :=
                 subscriptions r @ [(LoadEvent (container_id container), OnContainerAssetLoaded)],
               loads := loads r @ [container_id container]\<rparr>))"
  using assms by (simp add: patch_def onContainerAssetLoaded_def load_def once_def)

theorem patch_without_resource_witness:
  "resource empty_asset = None
   \<and> onContainerAssetLoaded empty_asset (loaded_with resources_7 unloaded_7) = Returned empty_asset
   \<and> falsy_id (containerAsset (empty_asset\<lparr>containerAsset := None\<rparr>))
   \<and> patch (empty_asset\<lparr>containerAsset := None\<rparr>) holds_loaded_7 =
       Returned (empty_asset\<lparr>containerAsset := None\<rparr>, holds_loaded_7)
   \<and> \<not> falsy_id (containerAsset empty_asset)
   \<and> get holds_loaded_7 (the (containerAsset empty_asset)) = Some (loaded_with resources_7 unloaded_7)
   \<and> loaded (loaded_with resources_7 unloaded_7)
   \<and> patch empty_asset holds_loaded_7 = Returned (empty_asset, holds_loaded_7)
   \<and> get holds_unloaded_7 (the (containerAsset empty_asset)) = Some unloaded_7
   \<and> \<not> loaded unloaded_7
   \<and> patch empty_asset holds_unloaded_7 =
       Returned (empty_asset,
         holds_unloaded_7\<lparr>subscriptions := [(LoadEvent 7, OnContainerAssetLoaded)], loads := [7]\<rparr>)"
proof -
  have n: "resource empty_asset = None"
    by (simp add: empty_asset_def)
  have n': "resource (empty_asset\<lparr>containerAsset := None\<rparr>) = None"
    by (simp add: empty_asset_def)
  have f: "falsy_id (containerAsset (empty_asset\<lparr>containerAsset := None\<rparr>))"
    by (simp add: falsy_id_def)
  have nf: "\<not> falsy_id (containerAsset empty_asset)"
    by (simp add: falsy_id_def empty_asset_def)
  have g1: "get holds_loaded_7 (the (containerAsset empty_asset)) =
      Some (loaded_with resources_7 unloaded_7)"
    by (simp add: get_def holds_loaded_7_def empty_asset_def)
  have l1: "loaded (loaded_with resources_7 unloaded_7)"
    by (simp add: loaded_with_def)
  have g2: "get holds_unloaded_7 (the (containerAsset empty_asset)) = Some unloaded_7"
    by (simp add: get_def holds_unloaded_7_def empty_asset_def)
  have l2: "\<not> loaded unloaded_7"
    by (simp add: unloaded_7_def)
  have s: "subscriptions holds_unloaded_7 = []" "loads holds_unloaded_7 = []"
    "container_id unloaded_7 = 7"
    by (simp_all add: holds_unloaded_7_def unloaded_7_def)
  from patch_without_resource [OF n', of "loaded_with resources_7 unloaded_7" holds_loaded_7]
    patch_without_resource [OF n, of "loaded_with resources_7 unloaded_7" holds_loaded_7]
    patch_without_resource [OF n, of unloaded_7 holds_unloaded_7]
    n f nf g1 l1 g2 l2 s
  show ?thesis
    by simp
qed

text \<open>
  When the entry \<^verbatim>\<open>renders[renderIndex]\<close> exists, \<^verbatim>\<open>meshes\<close> is assigned its \<^verbatim>\<open>resource\<close>,
  also when that is \<^verbatim>\<open>null\<close>; when there is no entry, \<^verbatim>\<open>meshes\<close> stays.
\<close>

lemma onContainerAssetLoaded_entry:
  assumes "resource asset = Some res" and "resources container = containerResource # rest"
  shows "onContainerAssetLoaded asset container =
    (case render_at (renders containerResource) (renderIndex asset) of
       None \<Rightarrow> Returned asset
     | Some r \<Rightarrow> Returned (asset\<lparr>resource := Some (res\<lparr>meshes := r\<rparr>)\<rparr>))"
  using assms by (simp add: onContainerAssetLoaded_def)

section \<open>Properties of the render component\<close>

subsection \<open>Layer lists\<close>

lemma add_absent_Nil [simp]: "add_absent present [] = present"
  by (simp add: add_absent_def)

lemma add_absent_Cons:
  "add_absent present (m # given) =
     add_absent (if m \<in> set present then present else present @ [m]) given"
  by (simp add: add_absent_def)

lemma set_add_absent [simp]: "set (add_absent present given) = set present \<union> set given"
  by (induction given arbitrary: present) (auto simp: add_absent_Cons)

lemma distinct_add_absent [simp]: "distinct (add_absent present given) = distinct present"
  by (induction given arbitrary: present) (auto simp: add_absent_Cons)

lemma add_absent_present: "set given \<subseteq> set present \<Longrightarrow> add_absent present given = present"
  by (induction given arbitrary: present) (auto simp: add_absent_Cons)

lemma set_remove_given [simp]: "set (remove_given present given) = set present - set given"
  by (auto simp: remove_given_def)

lemma distinct_remove_given [simp]: "distinct present \<Longrightarrow> distinct (remove_given present given)"
  by (simp add: remove_given_def)

lemma call_layer_idem: "call_layer meth given (call_layer meth given l) = call_layer meth given l"
  by (cases meth) (simp_all add: add_absent_present remove_given_def)

subsection \<open>A loop over the layer set\<close>

lemma on_layer_frame [simp]:
  "heap (on_layer meth given st i) = heap st"
  "batcher (on_layer meth given st i) = batcher st"
  "self (on_layer meth given st i) = self st"
  "inTools (on_layer meth given st i) = inTools st"
  by (simp_all add: on_layer_def split: option.splits)

lemma getLayerById_on_layer:
  "getLayerById (on_layer meth given st i) j =
     (if j = i then map_option (call_layer meth given) (getLayerById st j)
      else getLayerById st j)"
  by (simp add: on_layer_def getLayerById_def update_conv' split: option.splits)

lemma foldl_on_layer_frame [simp]:
  "heap (foldl (on_layer meth given) st ids) = heap st"
  "batcher (foldl (on_layer meth given) st ids) = batcher st"
  "self (foldl (on_layer meth given) st ids) = self st"
  "inTools (foldl (on_layer meth given) st ids) = inTools st"
  by (induction ids arbitrary: st) simp_all

lemma getLayerById_foldl_on_layer:
  "getLayerById (foldl (on_layer meth given) st ids) j =
     (if j \<in> set ids then map_option (call_layer meth given) (getLayerById st j)
      else getLayerById st j)"
proof (induction ids arbitrary: st)
  case Nil
  show ?case by simp
next
  case (Cons i ids)
  show ?case
    by (cases "getLayerById st j")
      (auto simp: Cons.IH getLayerById_on_layer call_layer_idem)
qed

lemma effects_on_layer:
  "effects (on_layer meth given st i) =
     effects st @ (if getLayerById st i \<noteq> None then [LayerCall i meth given] else [])"
  by (simp add: on_layer_def split: option.splits)

lemma effects_foldl_on_layer:
  "effects (foldl (on_layer meth given) st ids) =
     effects st @ map (\<lambda>i. LayerCall i meth given) (filter (\<lambda>i. getLayerById st i \<noteq> None) ids)"
proof (induction ids arbitrary: st)
  case Nil
  show ?case by simp
next
  case (Cons i ids)
  have d: "(getLayerById (on_layer meth given st i) j \<noteq> None) = (getLayerById st j \<noteq> None)" for j
    by (simp add: getLayerById_on_layer)
  show ?case
    by (simp add: Cons.IH d effects_on_layer del: not_None_eq)
qed

subsection \<open>Flag writes\<close>

lemma write_flag_frame [simp]:
  "layers (write_flag f b st m) = layers st"
  "batcher (write_flag f b st m) = batcher st"
  "self (write_flag f b st m) = self st"
  "inTools (write_flag f b st m) = inTools st"
  by (simp_all add: write_flag_def)

lemma foldl_write_flag_frame [simp]:
  "layers (foldl (write_flag f b) st mi) = layers st"
  "batcher (foldl (write_flag f b) st mi) = batcher st"
  "self (foldl (write_flag f b) st mi) = self st"
  "inTools (foldl (write_flag f b) st mi) = inTools st"
  by (induction mi arbitrary: st) simp_all

lemma effects_foldl_write_flag:
  "effects (foldl (write_flag f b) st mi) = effects st @ map (\<lambda>m. FlagWrite m f b) mi"
  by (induction mi arbitrary: st) (simp_all add: write_flag_def)

lemma getLayerById_write_flags [simp]:
  "getLayerById (foldl (write_flag f b) st mi) i = getLayerById st i"
  by (simp add: getLayerById_def)

subsection \<open>The setter of receiveShadows\<close>

text \<open>
  C9. On a component with a non-empty list of mesh instances, setting \<^verbatim>\<open>receiveShadows\<close>
  to another value throws a ReferenceError: \<^verbatim>\<open>_receiveShadows\<close> is set, and no mesh
  instance is written.
\<close>

theorem receiveShadows_setter_throws:
  assumes "c_receiveShadows (self st) \<noteq> v"
    and "c_meshInstances (self st) = Some (m # ms)"
  shows "set_receiveShadows v st =
           Threw ReferenceError (st\<lparr>self := (self st)\<lparr>c_receiveShadows := v\<rparr>\<rparr>)"
  using assms by (simp add: set_receiveShadows_def)

theorem receiveShadows_setter_throws_witness:
  "c_receiveShadows (self asset_scene) \<noteq> False
   \<and> c_meshInstances (self asset_scene) = Some [0]
   \<and> set_receiveShadows False asset_scene =
       Threw ReferenceError (asset_scene\<lparr>self := asset_component\<lparr>c_receiveShadows := False\<rparr>\<rparr>)
   \<and> receiveShadow (heap (asset_scene\<lparr>self := asset_component\<lparr>c_receiveShadows := False\<rparr>\<rparr>) ! 0)"
proof -
  have a: "c_receiveShadows (self asset_scene) \<noteq> False"
    by (simp add: asset_scene_def asset_component_def)
  have b: "c_meshInstances (self asset_scene) = Some (0 # [])"
    by (simp add: asset_scene_def asset_component_def)
  have c: "self asset_scene = asset_component"
    by (simp add: asset_scene_def)
  have d: "receiveShadow (heap asset_scene ! 0)"
    by (simp add: asset_scene_def asset_instance_def)
  from receiveShadows_setter_throws [OF a b] a b c d show ?thesis
    by simp
qed

text \<open>
  The setter of \<^verbatim>\<open>isStatic\<close>, written the same way but through the local \<^verbatim>\<open>mi\<close>, sets
  the flag of every instance of the list.
\<close>

lemma isStatic_setter_writes_each:
  assumes "c_isStatic (self st) \<noteq> v" and "c_meshInstances (self st) = Some mi"
  shows "effects (set_isStatic v st) = effects st @ map (\<lambda>m. FlagWrite m IsStatic v) mi"
  using assms by (simp add: set_isStatic_def effects_foldl_write_flag)

subsection \<open>Replacing the list of mesh instances\<close>

text \<open>
  C3. The component of \<open>asset_scene\<close> has mesh instance 0, registered in the world
  layer. Setting \<^verbatim>\<open>type\<close> to \<^verbatim>\<open>box\<close> replaces the list by the new instance 1, calls no
  layer method, and leaves instance 0 in the mesh-instance list of the world layer.
\<close>

theorem type_setter_keeps_old_instance_registered:
  "c_meshInstances (self asset_scene) = Some [0]
   \<and> set_type box_shapes ''box'' asset_scene = Returned box_scene
   \<and> c_meshInstances (self box_scene) = Some [1]
   \<and> map_option meshInstances (getLayerById box_scene LAYERID_WORLD) = Some [0]
   \<and> effects box_scene = effects asset_scene"
  by (simp add: set_type_def box_scene_def asset_scene_def asset_component_def box_shapes_def
      getLayerById_def Let_def)

lemma stamp_frame [simp]:
  "layers (stamp st m) = layers st"
  "batcher (stamp st m) = batcher st"
  "self (stamp st m) = self st"
  "inTools (stamp st m) = inTools st"
  by (simp_all add: stamp_def)

lemma foldl_stamp_frame [simp]:
  "layers (foldl stamp st mi) = layers st"
  "batcher (foldl stamp st mi) = batcher st"
  "self (foldl stamp st mi) = self st"
  "inTools (foldl stamp st mi) = inTools st"
  by (induction mi arbitrary: st) simp_all

lemma effects_stamp: "\<exists>ws. effects (stamp st m) = effects st @ ws"
  by (simp add: stamp_def write_flag_def)

lemma effects_foldl_stamp: "\<exists>ws. effects (foldl stamp st mi) = effects st @ ws"
proof (induction mi arbitrary: st)
  case Nil
  show ?case by simp
next
  case (Cons m mi)
  from effects_stamp[of st m] obtain ws where w: "effects (stamp st m) = effects st @ ws" ..
  from Cons[of "stamp st m"] obtain ws' where
    "effects (foldl stamp (stamp st m) mi) = effects (stamp st m) @ ws'" ..
  with w show ?case by simp
qed

lemma set_lightmapped_same [simp]: "set_lightmapped (c_lightmapped (self st)) st = st"
  by (simp add: set_lightmapped_def)

text \<open>
  The setter of \<^verbatim>\<open>meshInstances\<close> does what C3 says: it first calls
  \<^verbatim>\<open>removeMeshInstances\<close> with the old list on every resolvable layer of the layer set, and
  afterwards an instance of the old list is in such a layer only if it is in the new
  list as well.
\<close>

lemma meshInstances_setter_unregisters_old:
  assumes "c_meshInstances (self st) = Some old"
  shows "\<exists>st'. set_meshInstances v st = Returned st' \<and> c_meshInstances (self st') = v
     \<and> (\<exists>rest. effects st' =
           effects st @ map (\<lambda>i. LayerCall i RemoveMeshInstances old) (resolved st) @ rest)
     \<and> (\<forall>i l'. i \<in> set (c_layers (self st)) \<and> getLayerById st' i = Some l' \<longrightarrow>
           set old \<inter> set (meshInstances l') \<subseteq> (case v of None \<Rightarrow> {} | Some new \<Rightarrow> set new))"
proof -
  define st1 where "st1 = foldl (on_layer RemoveMeshInstances old) st (c_layers (self st))"
  have r: "removeFromLayers st = Returned st1"
    using assms by (simp add: removeFromLayers_def each_layer_def st1_def)
  have e1: "effects st1 = effects st @ map (\<lambda>i. LayerCall i RemoveMeshInstances old) (resolved st)"
    by (simp add: st1_def effects_foldl_on_layer resolved_def)
  have s1: "self st1 = self st"
    by (simp add: st1_def)
  have l1: "set old \<inter> set (meshInstances l) = {}"
    if "i \<in> set (c_layers (self st))" and "getLayerById st1 i = Some l" for i l
    using that by (auto simp: st1_def getLayerById_foldl_on_layer)
  define st2 where "st2 = st1\<lparr>self := (self st1)\<lparr>c_meshInstances := v\<rparr>\<rparr>"
  have g2: "getLayerById st2 i = getLayerById st1 i" for i
    by (simp add: st2_def getLayerById_def)
  have fin: ?thesis
    if 1: "set_meshInstances v st = Returned stf" and 2: "c_meshInstances (self stf) = v"
      and 3: "\<exists>rest. effects stf =
           effects st @ map (\<lambda>i. LayerCall i RemoveMeshInstances old) (resolved st) @ rest"
      and 4: "\<And>i l'. i \<in> set (c_layers (self st)) \<Longrightarrow> getLayerById stf i = Some l' \<Longrightarrow>
           set old \<inter> set (meshInstances l') \<subseteq> (case v of None \<Rightarrow> {} | Some new \<Rightarrow> set new)"
    for stf
    using that by blast
  show ?thesis
  proof (cases v)
    case None
    show ?thesis
    proof (rule fin)
      show "set_meshInstances v st = Returned st2"
        using assms r None by (simp add: set_meshInstances_def st2_def)
      show "c_meshInstances (self st2) = v"
        by (simp add: st2_def)
      show "\<exists>rest. effects st2 =
           effects st @ map (\<lambda>i. LayerCall i RemoveMeshInstances old) (resolved st) @ rest"
        using e1 by (simp add: st2_def)
      show "set old \<inter> set (meshInstances l') \<subseteq> (case v of None \<Rightarrow> {} | Some new \<Rightarrow> set new)"
        if "i \<in> set (c_layers (self st))" and "getLayerById st2 i = Some l'" for i l'
        using l1[OF that(1), of l'] that(2) by (simp add: g2)
    qed
  next
    case (Some new)
    define st3 where "st3 = foldl stamp st2 new"
    have s3: "self st3 = self st2" "layers st3 = layers st2"
      by (simp_all add: st3_def)
    have c2: "c_meshInstances (self st2) = Some new" "c_layers (self st2) = c_layers (self st)"
      "enabled (self st2) = enabled (self st)" "entity_enabled (self st2) = entity_enabled (self st)"
      using Some s1 by (simp_all add: st2_def)
    from effects_foldl_stamp[of st2 new] obtain ws where
      e3: "effects st3 = effects st1 @ ws"
      by (auto simp: st3_def st2_def)
    have g3: "getLayerById st3 i = getLayerById st1 i" for i
      using s3 g2 by (simp add: getLayerById_def)
    have step: "set_meshInstances v st =
        (if enabled (self st) \<and> entity_enabled (self st) then addToLayers st3 else Returned st3)"
      using assms r c2
      by (simp add: set_meshInstances_def st2_def[symmetric] Let_def st3_def[symmetric] s3)
    show ?thesis
    proof (cases "enabled (self st) \<and> entity_enabled (self st)")
      case False
      show ?thesis
      proof (rule fin)
        show "set_meshInstances v st = Returned st3"
          using step False by simp
        show "c_meshInstances (self st3) = v"
          using Some c2 by (simp add: s3)
        show "\<exists>rest. effects st3 =
           effects st @ map (\<lambda>i. LayerCall i RemoveMeshInstances old) (resolved st) @ rest"
          by (simp add: e3 e1)
        show "set old \<inter> set (meshInstances l') \<subseteq> (case v of None \<Rightarrow> {} | Some new \<Rightarrow> set new)"
          if "i \<in> set (c_layers (self st))" and "getLayerById st3 i = Some l'" for i l'
          using l1[OF that(1), of l'] that(2) by (simp add: g3)
      qed
    next
      case True
      define st4 where "st4 = foldl (on_layer AddMeshInstances new) st3 (c_layers (self st))"
      have a: "addToLayers st3 = Returned st4"
        by (simp add: addToLayers_def each_layer_def c2 s3 st4_def)
      show ?thesis
      proof (rule fin)
        show "set_meshInstances v st = Returned st4"
          using step True a by simp
        show "c_meshInstances (self st4) = v"
          using Some c2 by (simp add: st4_def s3)
        show "\<exists>rest. effects st4 =
            effects st @ map (\<lambda>i. LayerCall i RemoveMeshInstances old) (resolved st) @ rest"
          by (simp add: st4_def effects_foldl_on_layer e3 e1)
        show "set old \<inter> set (meshInstances l') \<subseteq> (case v of None \<Rightarrow> {} | Some new \<Rightarrow> set new)"
          if "i \<in> set (c_layers (self st))" and "getLayerById st4 i = Some l'" for i l'
        proof -
          from that obtain l where l: "getLayerById st1 i = Some l"
            and l': "l' = call_layer AddMeshInstances new l"
            by (auto simp: st4_def getLayerById_foldl_on_layer g3)
          from l1[OF that(1) l] l' Some show ?thesis
            by auto
        qed
      qed
    qed
  qed
qed

subsection \<open>The setter of castShadows\<close>

lemma castShadows_off:
  assumes "c_meshInstances (self st) = Some mi" and "c_castShadows (self st)"
  shows "set_castShadows False st =
      (foldl (write_flag CastShadow False)
         (foldl (on_layer RemoveShadowCasters mi) st (c_layers (self st))) mi)
      \<lparr>self := (self st)\<lparr>c_castShadows := False\<rparr>\<rparr>"
  using assms by (simp add: set_castShadows_def Let_def)

lemma castShadows_on:
  assumes "c_meshInstances (self st) = Some mi" and "\<not> c_castShadows (self st)"
  shows "set_castShadows True st =
      (foldl (on_layer AddShadowCasters mi)
         (foldl (write_flag CastShadow True) st mi) (c_layers (self st)))
      \<lparr>self := (self st)\<lparr>c_castShadows := True\<rparr>\<rparr>"
  using assms by (simp add: set_castShadows_def Let_def)

lemma getLayerById_self_update [simp]:
  "getLayerById (st\<lparr>self := c\<rparr>) i = getLayerById st i"
  by (simp add: getLayerById_def)

text \<open>
  C4, as stated, fails. In \<open>box_scene\<close>, the scene that setting \<^verbatim>\<open>type\<close> to \<^verbatim>\<open>box\<close>
  leaves, the component and its entity are enabled, it casts shadows and it has a list
  of mesh instances; the world layer has the shadow caster 0. After \<^verbatim>\<open>castShadows\<close> is
  set to false and back to true, the world layer has the shadow casters 0 and 1.
\<close>

theorem castShadows_round_trip_adds_caster:
  "set_type box_shapes ''box'' asset_scene = Returned box_scene
   \<and> enabled (self box_scene) \<and> entity_enabled (self box_scene)
   \<and> c_castShadows (self box_scene) \<and> c_meshInstances (self box_scene) = Some [1]
   \<and> c_layers (self box_scene) = [LAYERID_WORLD]
   \<and> map_option shadowCasters (getLayerById box_scene LAYERID_WORLD) = Some [0]
   \<and> map_option shadowCasters
        (getLayerById (set_castShadows True (set_castShadows False box_scene)) LAYERID_WORLD) =
       Some [0, 1]"
  by (simp add: set_type_def set_castShadows_def box_scene_def asset_scene_def
      asset_component_def box_shapes_def getLayerById_def Let_def on_layer_def write_flag_def
      remove_given_def add_absent_def)

text \<open>
  C4, amended. For a component with a list of mesh instances that are shadow casters of
  every resolvable layer of its layer set: setting \<^verbatim>\<open>castShadows\<close> from true to false and
  back to true gives every layer the shadow casters it had, and leaves the
  mesh-instance lists alone. The first call removes from the shadow casters and then
  writes the flags; the second writes the flags and then adds to the shadow casters.
\<close>

theorem castShadows_round_trip:
  assumes "c_meshInstances (self st) = Some mi" and "c_castShadows (self st)"
    and "\<forall>i \<in> set (resolved st). \<forall>l. getLayerById st i = Some l \<longrightarrow> set mi \<subseteq> set (shadowCasters l)"
  shows "(\<forall>i. map_option (\<lambda>l. (set (shadowCasters l), meshInstances l))
               (getLayerById (set_castShadows True (set_castShadows False st)) i) =
             map_option (\<lambda>l. (set (shadowCasters l), meshInstances l)) (getLayerById st i))
    \<and> effects (set_castShadows False st) =
        effects st @ map (\<lambda>i. LayerCall i RemoveShadowCasters mi) (resolved st)
                   @ map (\<lambda>m. FlagWrite m CastShadow False) mi
    \<and> effects (set_castShadows True (set_castShadows False st)) =
        effects (set_castShadows False st) @ map (\<lambda>m. FlagWrite m CastShadow True) mi
          @ map (\<lambda>i. LayerCall i AddShadowCasters mi) (resolved st)
    \<and> c_castShadows (self (set_castShadows True (set_castShadows False st)))
    \<and> c_meshInstances (self (set_castShadows True (set_castShadows False st))) = Some mi"
proof -
  define st1 where "st1 = set_castShadows False st"
  define st2 where "st2 = set_castShadows True st1"
  have off: "st1 = (foldl (write_flag CastShadow False)
         (foldl (on_layer RemoveShadowCasters mi) st (c_layers (self st))) mi)
      \<lparr>self := (self st)\<lparr>c_castShadows := False\<rparr>\<rparr>"
    unfolding st1_def by (rule castShadows_off[OF assms(1,2)])
  have s1: "c_meshInstances (self st1) = Some mi" "\<not> c_castShadows (self st1)"
    "c_layers (self st1) = c_layers (self st)"
    using assms(1) by (simp_all add: off)
  have on: "st2 = (foldl (on_layer AddShadowCasters mi)
         (foldl (write_flag CastShadow True) st1 mi) (c_layers (self st1)))
      \<lparr>self := (self st1)\<lparr>c_castShadows := True\<rparr>\<rparr>"
    unfolding st2_def by (rule castShadows_on[OF s1(1,2)])
  have g1: "getLayerById st1 i =
      (if i \<in> set (c_layers (self st))
       then map_option (call_layer RemoveShadowCasters mi) (getLayerById st i)
       else getLayerById st i)" for i
    by (simp add: off getLayerById_foldl_on_layer)
  have g2: "getLayerById st2 i =
      (if i \<in> set (c_layers (self st))
       then map_option (call_layer AddShadowCasters mi) (getLayerById st1 i)
       else getLayerById st1 i)" for i
    by (simp add: on getLayerById_foldl_on_layer s1)
  have r1: "resolved st1 = resolved st"
    by (simp add: resolved_def g1 s1 cong: filter_cong)
  have e1: "effects st1 =
        effects st @ map (\<lambda>i. LayerCall i RemoveShadowCasters mi) (resolved st)
                   @ map (\<lambda>m. FlagWrite m CastShadow False) mi"
    by (simp add: off effects_foldl_write_flag effects_foldl_on_layer resolved_def)
  have e2: "effects st2 =
        effects st1 @ map (\<lambda>m. FlagWrite m CastShadow True) mi
          @ map (\<lambda>i. LayerCall i AddShadowCasters mi) (resolved st)"
  proof -
    have f: "filter (\<lambda>i. getLayerById st1 i \<noteq> None) (c_layers (self st1)) = resolved st"
      using r1 unfolding resolved_def[of st1] .
    show ?thesis
      by (simp add: on effects_foldl_write_flag effects_foldl_on_layer f del: not_None_eq)
  qed
  have m: "map_option (\<lambda>l. (set (shadowCasters l), meshInstances l)) (getLayerById st2 i) =
      map_option (\<lambda>l. (set (shadowCasters l), meshInstances l)) (getLayerById st i)" for i
  proof (cases "getLayerById st i")
    case None
    then show ?thesis by (simp add: g2 g1)
  next
    case (Some l)
    show ?thesis
    proof (cases "i \<in> set (c_layers (self st))")
      case False
      then show ?thesis by (simp add: g2 g1)
    next
      case True
      with Some have "i \<in> set (resolved st)"
        by (simp add: resolved_def)
      with assms(3) Some have "set mi \<subseteq> set (shadowCasters l)"
        by blast
      with True Some show ?thesis
        by (auto simp: g2 g1)
    qed
  qed
  have c2: "c_castShadows (self st2)" "c_meshInstances (self st2) = Some mi"
    using s1 by (simp_all add: on)
  show ?thesis
    using m e1 e2 c2 unfolding st2_def st1_def by blast
qed

theorem castShadows_round_trip_witness:
  "c_meshInstances (self asset_scene) = Some [0] \<and> c_castShadows (self asset_scene)
   \<and> resolved asset_scene = [LAYERID_WORLD]
   \<and> getLayerById asset_scene LAYERID_WORLD = Some \<lparr>meshInstances = [0], shadowCasters = [0]\<rparr>
   \<and> map_option (\<lambda>l. (set (shadowCasters l), meshInstances l))
        (getLayerById (set_castShadows True (set_castShadows False asset_scene)) LAYERID_WORLD) =
       Some ({0}, [0])
   \<and> effects (set_castShadows True (set_castShadows False asset_scene)) =
       [LayerCall LAYERID_WORLD RemoveShadowCasters [0], FlagWrite 0 CastShadow False,
        FlagWrite 0 CastShadow True, LayerCall LAYERID_WORLD AddShadowCasters [0]]"
proof -
  have a: "c_meshInstances (self asset_scene) = Some [0]"
    by (simp add: asset_scene_def asset_component_def)
  have b: "c_castShadows (self asset_scene)"
    by (simp add: asset_scene_def asset_component_def)
  have g: "getLayerById asset_scene i =
      (if i = LAYERID_WORLD then Some \<lparr>meshInstances = [0], shadowCasters = [0]\<rparr> else None)" for i
    by (simp add: asset_scene_def getLayerById_def)
  have r: "resolved asset_scene = [LAYERID_WORLD]"
    by (simp add: resolved_def g) (simp add: asset_scene_def asset_component_def)
  have c: "\<forall>i \<in> set (resolved asset_scene). \<forall>l. getLayerById asset_scene i = Some l \<longrightarrow>
      set [0] \<subseteq> set (shadowCasters l)"
    by (simp add: r g)
  have e: "effects asset_scene = []"
    by (simp add: asset_scene_def)
  from castShadows_round_trip [OF a b c] a b r g e show ?thesis
    by simp
qed

subsection \<open>The setter of batchGroupId\<close>

lemma count_add_absent:
  "count_list (add_absent present given) m =
     (if m \<in> set present then count_list present m else if m \<in> set given then 1 else 0)"
proof (induction given arbitrary: present)
  case Nil
  show ?case by (simp add: count_list_0_iff)
next
  case (Cons x given)
  show ?case
    by (simp add: add_absent_Cons Cons.IH count_list_0_iff)
qed

lemma getLayerById_suppress:
  "map_of (suppress given ls) i = map_option (call_layer RemoveMeshInstances given) (map_of ls i)"
  by (induction ls) (auto simp: suppress_def)

lemma on_batcher_frame [simp]:
  "heap (on_batcher meth g n st) = heap st"
  "self (on_batcher meth g n st) = self st"
  "inTools (on_batcher meth g n st) = inTools st"
  "batcher (on_batcher meth g n st) = call_batcher meth g n (batcher st)"
  "effects (on_batcher meth g n st) = effects st @ [BatcherCall meth g n]"
  by (simp_all add: on_batcher_def)

lemma getLayerById_on_batcher:
  "getLayerById (on_batcher Remove g n st) i = getLayerById st i"
  "getLayerById (on_batcher Insert g n st) i =
     map_option (call_layer RemoveMeshInstances (geometry_of st n)) (getLayerById st i)"
  by (simp_all add: getLayerById_def on_batcher_def getLayerById_suppress)

text \<open>
  Assigning a batch group to a component that had none, on an enabled entity: the one
  call the setter makes is \<open>insert\<close>.
\<close>

lemma batchGroupId_assign:
  assumes "entity_enabled (self st)" and "c_batchGroupId (self st) < 0" and "0 \<le> g"
  shows "set_batchGroupId g st =
      Returned ((on_batcher Insert g (entity (self st)) st)
                  \<lparr>self := (self st)\<lparr>c_batchGroupId := g\<rparr>\<rparr>)"
  using assms by (simp add: set_batchGroupId_def Let_def)

text \<open>
  Taking the batch group away from an enabled component with a list of mesh instances:
  the setter calls \<open>remove\<close> and then \<^verbatim>\<open>addMeshInstances\<close> on every resolvable layer of the
  layer set.
\<close>

lemma batchGroupId_unassign:
  assumes "enabled (self st)" and "entity_enabled (self st)"
    and "c_meshInstances (self st) = Some mi" and "0 \<le> c_batchGroupId (self st)" and "v < 0"
  shows "set_batchGroupId v st =
      Returned ((foldl (on_layer AddMeshInstances mi)
                  (on_batcher Remove (c_batchGroupId (self st)) (entity (self st)) st)
                  (c_layers (self st)))
                \<lparr>self := (self st)\<lparr>c_batchGroupId := v\<rparr>\<rparr>)"
  using assms
  by (simp add: set_batchGroupId_def Let_def addToLayers_def each_layer_def)

text \<open>
  C5. On a component with a list of mesh instances, enabled together with its entity,
  over the batcher of the spec: setting \<^verbatim>\<open>batchGroupId\<close> from -1 to a valid id inserts
  the node into that batch group, by the one call \<open>insert\<close>, and afterwards no layer
  holds an instance of the component in its mesh-instance list. Setting it back to -1
  calls \<open>remove\<close> and then \<^verbatim>\<open>addMeshInstances\<close> on every resolvable layer of the layer
  set: the node is out of the batch group, every such layer holds every instance
  exactly once, a layer that held the instances before holds what it held before, and
  nothing else changes in any layer.
\<close>

theorem batchGroupId_round_trip:
  assumes "enabled (self st)" and "entity_enabled (self st)"
    and "c_meshInstances (self st) = Some mi" and "c_batchGroupId (self st) = - 1" and "0 \<le> g"
  shows "\<exists>st1 st2. set_batchGroupId g st = Returned st1
      \<and> effects st1 = effects st @ [BatcherCall Insert g (entity (self st))]
      \<and> (g, entity (self st)) \<in> set (batcher st1)
      \<and> c_batchGroupId (self st1) = g
      \<and> (\<forall>i l. getLayerById st i = Some l \<longrightarrow>
            (\<exists>l1. getLayerById st1 i = Some l1
               \<and> set mi \<inter> set (meshInstances l1) = {}
               \<and> meshInstances l1 = remove_given (meshInstances l) mi
               \<and> shadowCasters l1 = shadowCasters l))
      \<and> set_batchGroupId (- 1) st1 = Returned st2
      \<and> effects st2 =
          effects st1 @ BatcherCall Remove g (entity (self st))
            # map (\<lambda>i. LayerCall i AddMeshInstances mi) (resolved st)
      \<and> batcher st2 = removeAll (g, entity (self st)) (batcher st)
      \<and> c_batchGroupId (self st2) = - 1
      \<and> (\<forall>i. getLayerById st i = None \<longrightarrow> getLayerById st2 i = None)
      \<and> (\<forall>i l. getLayerById st i = Some l \<longrightarrow>
            (\<exists>l2. getLayerById st2 i = Some l2
               \<and> shadowCasters l2 = shadowCasters l
               \<and> set (meshInstances l2) =
                   (set (meshInstances l) - set mi) \<union>
                     (if i \<in> set (c_layers (self st)) then set mi else {})
               \<and> (i \<in> set (c_layers (self st)) \<longrightarrow>
                    (\<forall>m \<in> set mi. count_list (meshInstances l2) m = 1))
               \<and> (i \<in> set (c_layers (self st)) \<and> set mi \<subseteq> set (meshInstances l) \<longrightarrow>
                    set (meshInstances l2) = set (meshInstances l))
               \<and> (distinct (meshInstances l) \<longrightarrow> distinct (meshInstances l2))))"
proof -
  define e where "e = entity (self st)"
  define st1 where "st1 = (on_batcher Insert g e st)\<lparr>self := (self st)\<lparr>c_batchGroupId := g\<rparr>\<rparr>"
  have geo: "geometry_of st e = mi"
    using assms(3) by (simp add: geometry_of_def e_def)
  have a: "set_batchGroupId g st = Returned st1"
    unfolding st1_def e_def using assms by (intro batchGroupId_assign) simp_all
  have p1: "enabled (self st1)" "entity_enabled (self st1)" "c_meshInstances (self st1) = Some mi"
    "0 \<le> c_batchGroupId (self st1)" "c_batchGroupId (self st1) = g"
    "entity (self st1) = e" "c_layers (self st1) = c_layers (self st)"
    using assms by (simp_all add: st1_def e_def)
  have e1: "effects st1 = effects st @ [BatcherCall Insert g e]"
    by (simp add: st1_def)
  have b1: "(g, e) \<in> set (batcher st1)"
    by (simp add: st1_def)
  have g1: "getLayerById st1 i = map_option (call_layer RemoveMeshInstances mi) (getLayerById st i)"
    for i
    by (simp add: st1_def getLayerById_on_batcher geo)
  have l1: "\<forall>i l. getLayerById st i = Some l \<longrightarrow>
            (\<exists>l1. getLayerById st1 i = Some l1
               \<and> set mi \<inter> set (meshInstances l1) = {}
               \<and> meshInstances l1 = remove_given (meshInstances l) mi
               \<and> shadowCasters l1 = shadowCasters l)"
    by (auto simp: g1)
  define st1' where "st1' = on_batcher Remove g e st1"
  define st2 where "st2 = (foldl (on_layer AddMeshInstances mi) st1' (c_layers (self st)))
                \<lparr>self := (self st1)\<lparr>c_batchGroupId := - 1\<rparr>\<rparr>"
  have b: "set_batchGroupId (- 1) st1 = Returned st2"
    using batchGroupId_unassign[OF p1(1,2,3,4), of "- 1"] by (simp add: st2_def st1'_def p1)
  have g1': "getLayerById st1' i = getLayerById st1 i" for i
    by (simp add: st1'_def getLayerById_on_batcher)
  have f: "filter (\<lambda>i. getLayerById st1' i \<noteq> None) (c_layers (self st)) = resolved st"
    by (simp add: resolved_def g1' g1 del: not_None_eq)
  have e2: "effects st2 =
          effects st1 @ BatcherCall Remove g e # map (\<lambda>i. LayerCall i AddMeshInstances mi) (resolved st)"
    by (simp add: st2_def effects_foldl_on_layer f del: not_None_eq) (simp add: st1'_def)
  have b2: "batcher st2 = removeAll (g, e) (batcher st)"
    by (simp add: st2_def st1'_def st1_def)
  have c2: "c_batchGroupId (self st2) = - 1"
    by (simp add: st2_def)
  have g2: "getLayerById st2 i =
      (if i \<in> set (c_layers (self st))
       then map_option (call_layer AddMeshInstances mi \<circ> call_layer RemoveMeshInstances mi)
              (getLayerById st i)
       else map_option (call_layer RemoveMeshInstances mi) (getLayerById st i))" for i
    by (simp add: st2_def getLayerById_foldl_on_layer g1' g1 option.map_comp)
  have n: "\<forall>i. getLayerById st i = None \<longrightarrow> getLayerById st2 i = None"
    by (simp add: g2)
  have s: "\<exists>l2. getLayerById st2 i = Some l2
               \<and> shadowCasters l2 = shadowCasters l
               \<and> set (meshInstances l2) =
                   (set (meshInstances l) - set mi) \<union>
                     (if i \<in> set (c_layers (self st)) then set mi else {})
               \<and> (i \<in> set (c_layers (self st)) \<longrightarrow>
                    (\<forall>m \<in> set mi. count_list (meshInstances l2) m = 1))
               \<and> (i \<in> set (c_layers (self st)) \<and> set mi \<subseteq> set (meshInstances l) \<longrightarrow>
                    set (meshInstances l2) = set (meshInstances l))
               \<and> (distinct (meshInstances l) \<longrightarrow> distinct (meshInstances l2))"
    if "getLayerById st i = Some l" for i l
  proof (cases "i \<in> set (c_layers (self st))")
    case False
    with that show ?thesis
      by (simp add: g2)
  next
    case True
    have "getLayerById st2 i =
        Some (call_layer AddMeshInstances mi (call_layer RemoveMeshInstances mi l))"
      using True that by (simp add: g2)
    moreover have "count_list (add_absent (remove_given (meshInstances l) mi) mi) m = 1"
      if "m \<in> set mi" for m
      using that by (simp add: count_add_absent)
    ultimately show ?thesis
      using True by auto
  qed
  from a e1 b1 p1(5) l1 b e2 b2 c2 n s show ?thesis
    unfolding e_def by blast
qed

theorem batchGroupId_round_trip_witness:
  "enabled (self asset_scene) \<and> entity_enabled (self asset_scene)
   \<and> c_meshInstances (self asset_scene) = Some [0] \<and> c_batchGroupId (self asset_scene) = - 1
   \<and> (0::int) \<le> 3
   \<and> getLayerById asset_scene LAYERID_WORLD = Some \<lparr>meshInstances = [0], shadowCasters = [0]\<rparr>
   \<and> LAYERID_WORLD \<in> set (c_layers (self asset_scene))
   \<and> (\<exists>st1 st2. set_batchGroupId 3 asset_scene = Returned st1
      \<and> effects st1 = effects asset_scene @ [BatcherCall Insert 3 (entity (self asset_scene))]
      \<and> (3, entity (self asset_scene)) \<in> set (batcher st1)
      \<and> c_batchGroupId (self st1) = 3
      \<and> (\<forall>i l. getLayerById asset_scene i = Some l \<longrightarrow>
            (\<exists>l1. getLayerById st1 i = Some l1
               \<and> set [0] \<inter> set (meshInstances l1) = {}
               \<and> meshInstances l1 = remove_given (meshInstances l) [0]
               \<and> shadowCasters l1 = shadowCasters l))
      \<and> set_batchGroupId (- 1) st1 = Returned st2
      \<and> effects st2 =
          effects st1 @ BatcherCall Remove 3 (entity (self asset_scene))
            # map (\<lambda>i. LayerCall i AddMeshInstances [0]) (resolved asset_scene)
      \<and> batcher st2 = removeAll (3, entity (self asset_scene)) (batcher asset_scene)
      \<and> c_batchGroupId (self st2) = - 1
      \<and> (\<forall>i. getLayerById asset_scene i = None \<longrightarrow> getLayerById st2 i = None)
      \<and> (\<forall>i l. getLayerById asset_scene i = Some l \<longrightarrow>
            (\<exists>l2. getLayerById st2 i = Some l2
               \<and> shadowCasters l2 = shadowCasters l
               \<and> set (meshInstances l2) =
                   (set (meshInstances l) - set [0]) \<union>
                     (if i \<in> set (c_layers (self asset_scene)) then set [0] else {})
               \<and> (i \<in> set (c_layers (self asset_scene)) \<longrightarrow>
                    (\<forall>m \<in> set [0]. count_list (meshInstances l2) m = 1))
               \<and> (i \<in> set (c_layers (self asset_scene)) \<and> set [0] \<subseteq> set (meshInstances l) \<longrightarrow>
                    set (meshInstances l2) = set (meshInstances l))
               \<and> (distinct (meshInstances l) \<longrightarrow> distinct (meshInstances l2)))))"
proof -
  have a: "enabled (self asset_scene)" and b: "entity_enabled (self asset_scene)"
    and c: "c_meshInstances (self asset_scene) = Some [0]"
    and d: "c_batchGroupId (self asset_scene) = - 1"
    by (simp_all add: asset_scene_def asset_component_def)
  have e: "(0::int) \<le> 3"
    by simp
  have f: "getLayerById asset_scene LAYERID_WORLD =
      Some \<lparr>meshInstances = [0], shadowCasters = [0]\<rparr>"
    by (simp add: asset_scene_def getLayerById_def)
  have g: "LAYERID_WORLD \<in> set (c_layers (self asset_scene))"
    by (simp add: asset_scene_def asset_component_def)
  note x = batchGroupId_round_trip [OF a b c d e]
  show ?thesis
    by (intro conjI) (rule a b c d e f g x)+
qed

text \<open>
  In \<open>asset_scene\<close>: after the batch group 3 is assigned the world layer has no mesh
  instance, and after it is taken away the scene is as it was, but for the three calls
  made.
\<close>

lemma batchGroupId_round_trip_asset_scene:
  "set_batchGroupId 3 asset_scene =
     Returned (asset_scene
       \<lparr>layers := [(LAYERID_WORLD, \<lparr>meshInstances = [], shadowCasters = [0]\<rparr>)],
        batcher := [(3, 1)], self := asset_component\<lparr>c_batchGroupId := 3\<rparr>,
        effects := [BatcherCall Insert 3 1]\<rparr>)
   \<and> set_batchGroupId (- 1) (asset_scene
       \<lparr>layers := [(LAYERID_WORLD, \<lparr>meshInstances = [], shadowCasters = [0]\<rparr>)],
        batcher := [(3, 1)], self := asset_component\<lparr>c_batchGroupId := 3\<rparr>,
        effects := [BatcherCall Insert 3 1]\<rparr>) =
     Returned (asset_scene
       \<lparr>effects := [BatcherCall Insert 3 1, BatcherCall Remove 3 1,
                    LayerCall LAYERID_WORLD AddMeshInstances [0]]\<rparr>)"
  by (simp add: set_batchGroupId_def asset_scene_def asset_component_def on_batcher_def
      geometry_of_def suppress_def remove_given_def addToLayers_def each_layer_def on_layer_def
      getLayerById_def add_absent_def LAYERID_WORLD_def Let_def)

end
